theory Spec2Isabelle
  imports Complex_Main
begin

section \<open>Shape model (composables/shapes/index.ts)\<close>

text \<open>
  JavaScript numbers are modelled as real numbers: the geometry below is the exact
  arithmetic the source writes, without rounding, infinities or NaN. The one exception
  is the arrow's \<open>move\<close>, whose property is about the rounding: its additions are the
  additions of IEEE 754 double precision.
  A \<open>Point2D\<close> is the source's \<open>{x, y}\<close>; the fields are called \<open>px\<close> and \<open>py\<close>
  here so that \<open>x\<close> and \<open>y\<close> stay free for variables.
\<close>

record Point2D =
  px :: real
  py :: real

datatype ShapeType = Rect | Ellipse | Arrow | Pen | Text

text \<open>
  \<open>BaseShapeData\<close> carries the tag. \<open>RectShapeData\<close>, \<open>EllipseShapeData\<close> and
  \<open>ArrowShapeData\<close> have the same four fields in the source and differ in the tag only,
  so they share one record. Any further property a JavaScript object may carry is the
  record's extension part, which a spread \<open>{...data, f: v}\<close> (a record update) keeps.
\<close>

record BaseShapeData =
  type :: ShapeType

record TwoPointShapeData = BaseShapeData +
  x1 :: real
  y1 :: real
  x2 :: real
  y2 :: real

type_synonym RectShapeData = TwoPointShapeData
type_synonym EllipseShapeData = TwoPointShapeData
type_synonym ArrowShapeData = TwoPointShapeData

record PenShapeData = BaseShapeData +
  points :: "Point2D list"

text \<open>The text variant's fields \<open>x\<close>, \<open>y\<close>, \<open>text\<close> are \<open>tx\<close>, \<open>ty\<close>, \<open>content\<close>.\<close>

record TextShapeData = BaseShapeData +
  tx :: real
  ty :: real
  content :: string
  fontSize :: real

datatype ShapeData =
    RectData RectShapeData
  | EllipseData EllipseShapeData
  | ArrowData ArrowShapeData
  | PenData PenShapeData
  | TextData TextShapeData

section \<open>Shape handlers: createData\<close>

text \<open>rectHandler.ts, \<open>RectHandler.createData\<close>.\<close>

definition RectHandler_createData :: "Point2D \<Rightarrow> Point2D \<Rightarrow> RectShapeData option" where
  "RectHandler_createData start current =
     (let width = \<bar>px current - px start\<bar>;
          height = \<bar>py current - py start\<bar>
      in if width < 2 \<or> height < 2 then None
         else Some \<lparr>type = Rect, x1 = px start, y1 = py start,
                     x2 = px current, y2 = py current\<rparr>)"

text \<open>ellipseHandler.ts, \<open>EllipseHandler.createData\<close>: the test is on the two radii.\<close>

definition EllipseHandler_createData :: "Point2D \<Rightarrow> Point2D \<Rightarrow> EllipseShapeData option" where
  "EllipseHandler_createData start current =
     (let rx = \<bar>px current - px start\<bar> / 2;
          ry = \<bar>py current - py start\<bar> / 2
      in if rx < 2 \<or> ry < 2 then None
         else Some \<lparr>type = Ellipse, x1 = px start, y1 = py start,
                     x2 = px current, y2 = py current\<rparr>)"

text \<open>arrowHandler.ts, \<open>ArrowHandler.createData\<close>.\<close>

definition ArrowHandler_createData :: "Point2D \<Rightarrow> Point2D \<Rightarrow> ArrowShapeData option" where
  "ArrowHandler_createData start current =
     (let dx = \<bar>px current - px start\<bar>;
          dy = \<bar>py current - py start\<bar>
      in if dx < 5 \<and> dy < 5 then None
         else Some \<lparr>type = Arrow, x1 = px start, y1 = py start,
                     x2 = px current, y2 = py current\<rparr>)"

text \<open>
  penHandler.ts, \<open>PenHandler.createData\<close>. The third parameter is optional:
  \<open>points || [start, current]\<close> takes the two gesture points when no array is passed
  (an array, even an empty one, is truthy).
\<close>

definition PenHandler_createData ::
  "Point2D \<Rightarrow> Point2D \<Rightarrow> Point2D list option \<Rightarrow> PenShapeData option" where
  "PenHandler_createData start current pts =
     (let allPoints = (case pts of None \<Rightarrow> [start, current] | Some ps \<Rightarrow> ps)
      in if length allPoints < 2 then None
         else Some \<lparr>type = Pen, points = allPoints\<rparr>)"

text \<open>textHandler.ts, \<open>TextHandler.createData\<close>: only the start point is used.\<close>

definition TextHandler_createData ::
  "Point2D \<Rightarrow> Point2D \<Rightarrow> Point2D list option \<Rightarrow> TextShapeData option" where
  "TextHandler_createData start current pts =
     Some \<lparr>type = Text, tx = px start, ty = py start, content = [], fontSize = 20\<rparr>"

text \<open>
  The registry maps a tag to its handler; each handler module registers itself when it
  is imported, and useFabricCanvas.ts imports all five. \<open>createData\<close> below is the call
  \<open>ShapeRegistry.getHandler(tool).createData(start, current, points)\<close> of the canvas
  composable; rect, ellipse and arrow ignore the third argument.
\<close>

definition createData ::
  "ShapeType \<Rightarrow> Point2D \<Rightarrow> Point2D \<Rightarrow> Point2D list option \<Rightarrow> ShapeData option" where
  "createData tool start current pts =
     (case tool of
        Rect \<Rightarrow> map_option RectData (RectHandler_createData start current)
      | Ellipse \<Rightarrow> map_option EllipseData (EllipseHandler_createData start current)
      | Arrow \<Rightarrow> map_option ArrowData (ArrowHandler_createData start current)
      | Pen \<Rightarrow> map_option PenData (PenHandler_createData start current pts)
      | Text \<Rightarrow> map_option TextData (TextHandler_createData start current pts))"

text \<open>The extents of a drag gesture.\<close>

definition extent_x :: "Point2D \<Rightarrow> Point2D \<Rightarrow> real" where
  "extent_x start current = \<bar>px current - px start\<bar>"

definition extent_y :: "Point2D \<Rightarrow> Point2D \<Rightarrow> real" where
  "extent_y start current = \<bar>py current - py start\<bar>"

section \<open>Arrow handler (arrowHandler.ts)\<close>

text \<open>
  Double-precision addition. A finite double is a real number; \<open>a + b\<close> of the source
  is the exact sum rounded to the nearest double, ties to the even significand.
  \<open>round_even\<close> rounds to the nearest integer, ties to even. \<open>double_exponent r\<close> is
  the exponent of the binade of \<open>r\<close>, not below -1022 (below that the doubles are the
  subnormal ones, all multiples of 2 to the -1074). \<open>round_double\<close> rounds to the
  nearest multiple of the unit in the last place, 2 to the exponent minus 52. A sum
  whose rounding reaches 2 to the 1024 is \<open>Infinity\<close> in JavaScript: \<open>js_add\<close> gives
  \<open>None\<close> for it, since a real number cannot hold it.
\<close>

definition round_even :: "real \<Rightarrow> int" where
  "round_even q =
     (let f = \<lfloor>q\<rfloor>; d = q - of_int f
      in if d < 1 / 2 then f else if 1 / 2 < d then f + 1
         else if even f then f else f + 1)"

definition double_exponent :: "real \<Rightarrow> int" where
  "double_exponent r = max (- 1022) \<lfloor>log 2 \<bar>r\<bar>\<rfloor>"

definition round_double :: "real \<Rightarrow> real" where
  "round_double r =
     (if r = 0 then 0
      else (let u = 2 powi (double_exponent r - 52)
            in of_int (round_even (r / u)) * u))"

definition js_add :: "real \<Rightarrow> real \<Rightarrow> real option" where
  "js_add a b =
     (let r = round_double (a + b) in if \<bar>r\<bar> < 2 ^ 1024 then Some r else None)"

text \<open>
  \<open>ArrowHandler.move\<close>: the spread \<open>{...data, x1: \<dots>}\<close> copies every property of
  \<open>data\<close> and overwrites the four coordinates with the four sums. The result is
  \<open>None\<close> when one of the sums is no finite number.
\<close>

definition ArrowHandler_move ::
  "'a TwoPointShapeData_scheme \<Rightarrow> real \<Rightarrow> real \<Rightarrow> 'a TwoPointShapeData_scheme option" where
  "ArrowHandler_move data dx dy =
     (case (js_add (x1 data) dx, js_add (y1 data) dy,
            js_add (x2 data) dx, js_add (y2 data) dy) of
        (Some a, Some b, Some c, Some e) \<Rightarrow>
          Some (data\<lparr>x1 := a, y1 := b, x2 := c, y2 := e\<rparr>)
      | _ \<Rightarrow> None)"

text \<open>
  A coordinate \<open>c\<close> and a displacement \<open>t\<close> for which the two roundings of \<open>c + t - t\<close>
  stay small: both \<open>c\<close> and \<open>c + t\<close> below 2 ^ 23 in magnitude, or \<open>c\<close> below 2 ^ 20
  and \<open>c + t\<close> below 2 ^ 24.
\<close>

definition roundTripRange :: "real \<Rightarrow> real \<Rightarrow> bool" where
  "roundTripRange c t =
     (\<bar>c\<bar> \<le> 8388607 \<and> \<bar>c + t\<bar> < 8388608 \<or> \<bar>c\<bar> \<le> 1048575 \<and> \<bar>c + t\<bar> < 16777216)"

text \<open>
  \<open>buildArrowPathData\<close> returns an SVG path string, the commands joined by blanks. The
  model returns the commands themselves, before the numbers are printed: \<open>MoveTo\<close> is
  \<open>M\<close>, \<open>LineTo\<close> is \<open>L\<close> and \<open>ClosePath\<close> is \<open>Z\<close>.
\<close>

datatype PathCommand = MoveTo real real | LineTo real real | ClosePath

text \<open>\<open>Math.atan2(b, a)\<close>, the angle of the point (a, b) in the interval from -pi to pi.\<close>

definition Math_atan2 :: "real \<Rightarrow> real \<Rightarrow> real" where
  "Math_atan2 b a =
     (if 0 < a then arctan (b / a)
      else if a < 0 then (if 0 \<le> b then arctan (b / a) + pi else arctan (b / a) - pi)
      else if 0 < b then pi / 2
      else if b < 0 then - (pi / 2)
      else 0)"

text \<open>
  The parameters \<open>x1, y1, x2, y2\<close> of the source are \<open>ax1, ay1, ax2, ay2\<close>, and its
  local \<open>length\<close> is \<open>len\<close>. The last parameter is optional with default 3.
\<close>

definition buildArrowPathData ::
  "real \<Rightarrow> real \<Rightarrow> real \<Rightarrow> real \<Rightarrow> real option \<Rightarrow> PathCommand list" where
  "buildArrowPathData ax1 ay1 ax2 ay2 w =
     (let width = (case w of None \<Rightarrow> 3 | Some v \<Rightarrow> v);
          angle = Math_atan2 (ay2 - ay1) (ax2 - ax1);
          len = sqrt ((ax2 - ax1)\<^sup>2 + (ay2 - ay1)\<^sup>2);
          scale = max 0.5 (width / 3);
          shaftWidth = 2 * scale;
          headLength = min (30 * scale) (len * 0.4);
          headWidth = 10 * scale;
          neckX = ax2 - headLength * cos angle;
          neckY = ay2 - headLength * sin angle;
          perpAngle = angle + pi / 2;
          cosPerp = cos perpAngle;
          sinPerp = sin perpAngle;
          tail1X = ax1 + shaftWidth * cosPerp;
          tail1Y = ay1 + shaftWidth * sinPerp;
          tail2X = ax1 - shaftWidth * cosPerp;
          tail2Y = ay1 - shaftWidth * sinPerp;
          neck1X = neckX + shaftWidth * cosPerp;
          neck1Y = neckY + shaftWidth * sinPerp;
          neck2X = neckX - shaftWidth * cosPerp;
          neck2Y = neckY - shaftWidth * sinPerp;
          head1X = neckX + headWidth * cosPerp;
          head1Y = neckY + headWidth * sinPerp;
          head2X = neckX - headWidth * cosPerp;
          head2Y = neckY - headWidth * sinPerp
      in [MoveTo tail1X tail1Y, LineTo neck1X neck1Y, LineTo head1X head1Y,
          LineTo ax2 ay2, LineTo head2X head2Y, LineTo neck2X neck2Y,
          LineTo tail2X tail2Y, ClosePath])"

text \<open>The Euclidean distance between (xa, ya) and (xb, yb), to state the geometry.\<close>

definition distance :: "real \<Rightarrow> real \<Rightarrow> real \<Rightarrow> real \<Rightarrow> real" where
  "distance xa ya xb yb = sqrt ((xb - xa)\<^sup>2 + (yb - ya)\<^sup>2)"

section \<open>Drawing surface (useFabricCanvas.ts)\<close>

text \<open>
  Fabric objects are shared: a control circle is on the canvas and in
  \<open>controlPoints.value.points\<close> at once, and the export writes its \<open>visible\<close> flag
  through the second reference. So objects live in a heap, a total map from references
  to object values, and the canvas and the control-point list hold references.
  Of an object's properties the model keeps the ones the composable itself reads or
  writes in the code below.
\<close>

type_synonym ref = nat

record FabricObject =
  isControlPoint :: bool
  visible :: bool
  shapeData :: "ShapeData option"

record Canvas =
  objects :: "ref list"

text \<open>The source's \<open>interface HistoryEntry { json: string }\<close>; \<open>'j\<close> is the JSON text.\<close>

record 'j HistoryEntry =
  json :: 'j

text \<open>
  The state of one \<open>useFabricCanvas\<close> instance. \<open>controlPoints.value\<close> is the pair
  \<open>controlPoints_shape\<close>, \<open>controlPoints_points\<close>; \<open>nextRef\<close> is the next unused
  reference, for the objects that loading a snapshot creates.
\<close>

record 'j FabricState =
  heap :: "ref \<Rightarrow> FabricObject"
  nextRef :: ref
  fabricCanvas :: "Canvas option"
  controlPoints_shape :: "ref option"
  controlPoints_points :: "ref list"
  history :: "'j HistoryEntry list"
  historyIndex :: int
  isLoadingHistory :: bool

text \<open>
  \<open>Array.prototype.slice(start, end)\<close>: a negative index counts from the end, both are
  clamped to the array, and an empty range gives the empty array.
\<close>

definition Array_slice :: "'a list \<Rightarrow> int \<Rightarrow> int \<Rightarrow> 'a list" where
  "Array_slice xs start fin =
     (let n = int (length xs);
          k = (if start < 0 then max (n + start) 0 else min start n);
          f = (if fin < 0 then max (n + fin) 0 else min fin n)
      in take (nat (f - k)) (drop (nat k) xs))"

text \<open>
  The objects a snapshot keeps: the canvas's objects in stacking order, without the
  control points (\<open>state.objects.filter(obj => !obj.isControlPoint)\<close>).
\<close>

definition persistentObjects :: "'j FabricState \<Rightarrow> Canvas \<Rightarrow> FabricObject list" where
  "persistentObjects s canvas =
     filter (\<lambda>obj. \<not> isControlPoint obj) (map (heap s) (objects canvas))"

text \<open>
  \<open>saveHistory\<close>. The parameter \<open>toJSON\<close> stands for Fabric's
  \<open>canvas.toObject(["shapeData", "isControlPoint"])\<close> followed by \<open>JSON.stringify\<close>,
  applied to the objects that are left after the filter.
\<close>

definition saveHistory :: "(FabricObject list \<Rightarrow> 'j) \<Rightarrow> 'j FabricState \<Rightarrow> 'j FabricState" where
  "saveHistory toJSON s =
     (case fabricCanvas s of
        None \<Rightarrow> s
      | Some canvas \<Rightarrow>
          (let s1 = (if historyIndex s < int (length (history s)) - 1
                     then s\<lparr>history := Array_slice (history s) 0 (historyIndex s + 1)\<rparr>
                     else s);
               entry = \<lparr>json = toJSON (persistentObjects s1 canvas)\<rparr>;
               s2 = s1\<lparr>history := history s1 @ [entry]\<rparr>
           in s2\<lparr>historyIndex := int (length (history s2)) - 1\<rparr>))"

text \<open>
  \<open>canvas.loadFromJSON(json)\<close> replaces the canvas's objects by new objects built from
  the snapshot; \<open>parse\<close> stands for Fabric's deserialisation. The new objects get the
  references from \<open>nextRef\<close> on.
\<close>

definition loadFromJSON :: "('j \<Rightarrow> FabricObject list) \<Rightarrow> 'j \<Rightarrow> 'j FabricState \<Rightarrow> 'j FabricState" where
  "loadFromJSON parse j s =
     (let vs = parse j; n = nextRef s
      in s\<lparr>heap := (\<lambda>r. if n \<le> r \<and> r < n + length vs then vs ! (r - n) else heap s r),
            nextRef := n + length vs,
            fabricCanvas := map_option (\<lambda>c. c\<lparr>objects := [n ..< n + length vs]\<rparr>) (fabricCanvas s)\<rparr>)"

text \<open>
  \<open>undo\<close> and \<open>redo\<close>, each awaited to its end. Reading \<open>history.value[i]\<close> outside the
  array gives \<open>undefined\<close>, and \<open>entry.json\<close> then throws: the call ends there, with
  the cursor moved and \<open>isLoadingHistory\<close> still set.
\<close>

definition undo :: "('j \<Rightarrow> FabricObject list) \<Rightarrow> 'j FabricState \<Rightarrow> 'j FabricState" where
  "undo parse s =
     (if fabricCanvas s = None \<or> historyIndex s \<le> 0 then s
      else
        (let s1 = s\<lparr>isLoadingHistory := True, historyIndex := historyIndex s - 1\<rparr>
         in if int (length (history s1)) \<le> historyIndex s1 then s1
            else (loadFromJSON parse (json (history s1 ! nat (historyIndex s1))) s1)
                   \<lparr>isLoadingHistory := False\<rparr>))"

definition redo :: "('j \<Rightarrow> FabricObject list) \<Rightarrow> 'j FabricState \<Rightarrow> 'j FabricState" where
  "redo parse s =
     (if fabricCanvas s = None \<or> int (length (history s)) - 1 \<le> historyIndex s then s
      else
        (let s1 = s\<lparr>isLoadingHistory := True, historyIndex := historyIndex s + 1\<rparr>
         in if historyIndex s1 < 0 then s1
            else (loadFromJSON parse (json (history s1 ! nat (historyIndex s1))) s1)
                   \<lparr>isLoadingHistory := False\<rparr>))"

definition resetHistory :: "'j FabricState \<Rightarrow> 'j FabricState" where
  "resetHistory s = s\<lparr>history := [], historyIndex := - 1\<rparr>"

definition canUndo :: "'j FabricState \<Rightarrow> bool" where
  "canUndo s = (0 < historyIndex s)"

definition canRedo :: "'j FabricState \<Rightarrow> bool" where
  "canRedo s = (historyIndex s < int (length (history s)) - 1)"

text \<open>
  The state a fresh \<open>useFabricCanvas()\<close> starts in, and the part of \<open>initCanvas\<close> and
  \<open>dispose\<close> that touches it: \<open>initCanvas\<close> installs a new, empty canvas; \<open>dispose\<close>
  drops the canvas and the control points and resets the history.
\<close>

definition initialState :: "'j FabricState" where
  "initialState =
     \<lparr>heap = (\<lambda>r. \<lparr>isControlPoint = False, visible = True, shapeData = None\<rparr>),
      nextRef = 0, fabricCanvas = None, controlPoints_shape = None,
      controlPoints_points = [], history = [], historyIndex = - 1,
      isLoadingHistory = False\<rparr>"

definition initCanvas :: "'j FabricState \<Rightarrow> 'j FabricState" where
  "initCanvas s = s\<lparr>fabricCanvas := Some \<lparr>objects = []\<rparr>\<rparr>"

definition dispose :: "'j FabricState \<Rightarrow> 'j FabricState" where
  "dispose s =
     resetHistory (s\<lparr>fabricCanvas := None, controlPoints_shape := None,
                     controlPoints_points := []\<rparr>)"

text \<open>
  \<open>toDataURL\<close>. \<open>encode\<close> stands for Fabric's \<open>canvas.toDataURL({format, quality,
  multiplier})\<close>, which paints the canvas's objects whose \<open>visible\<close> flag is set, in
  stacking order, and encodes the picture; the two \<open>renderAll\<close> calls change no state.
  Both parameters are optional, with defaults \<open>"png"\<close> and 1.
\<close>

datatype ImageFormat = Png | Jpeg

definition setVisible :: "bool \<Rightarrow> ref list \<Rightarrow> (ref \<Rightarrow> FabricObject) \<Rightarrow> (ref \<Rightarrow> FabricObject)" where
  "setVisible v controls h = fold (\<lambda>c h'. h'(c := (h' c)\<lparr>visible := v\<rparr>)) controls h"

definition toDataURL ::
  "(ImageFormat \<Rightarrow> real \<Rightarrow> real \<Rightarrow> FabricObject list \<Rightarrow> string) \<Rightarrow>
   ImageFormat option \<Rightarrow> real option \<Rightarrow> 'j FabricState \<Rightarrow> string \<times> 'j FabricState" where
  "toDataURL encode fmt q s =
     (let format = (case fmt of None \<Rightarrow> Png | Some f \<Rightarrow> f);
          quality = (case q of None \<Rightarrow> 1 | Some v \<Rightarrow> v)
      in case fabricCanvas s of
           None \<Rightarrow> ([], s)
         | Some canvas \<Rightarrow>
             (let controls = controlPoints_points s;
                  s1 = s\<lparr>heap := setVisible False controls (heap s)\<rparr>;
                  dataUrl = encode format quality 1
                              (filter visible (map (heap s1) (objects canvas)));
                  s2 = s1\<lparr>heap := setVisible True controls (heap s1)\<rparr>
              in (dataUrl, s2)))"

text \<open>
  \<open>canvas.add(obj)\<close> for an object the caller has just built, as \<open>addObject\<close> and the
  drawing handlers do: the new object gets the next reference and goes on top.
\<close>

definition addObject :: "FabricObject \<Rightarrow> 'j FabricState \<Rightarrow> 'j FabricState" where
  "addObject obj s =
     (case fabricCanvas s of
        None \<Rightarrow> s
      | Some canvas \<Rightarrow>
          s\<lparr>heap := (heap s)(nextRef s := obj), nextRef := nextRef s + 1,
            fabricCanvas := Some (canvas\<lparr>objects := objects canvas @ [nextRef s]\<rparr>)\<rparr>)"

text \<open>The cursor points at an entry of the log.\<close>

definition cursor_in_range :: "'j FabricState \<Rightarrow> bool" where
  "cursor_in_range s =
     (0 \<le> historyIndex s \<and> historyIndex s \<le> int (length (history s)) - 1)"

text \<open>
  The states the composable reaches from its start by the operations above, for a
  fixed serialisation \<open>toJSON\<close> and deserialisation \<open>parse\<close>.
\<close>

inductive reachable ::
  "(FabricObject list \<Rightarrow> 'j) \<Rightarrow> ('j \<Rightarrow> FabricObject list) \<Rightarrow> 'j FabricState \<Rightarrow> bool"
  for toJSON :: "FabricObject list \<Rightarrow> 'j" and parse :: "'j \<Rightarrow> FabricObject list" where
    reach_start: "reachable toJSON parse initialState"
  | reach_initCanvas: "reachable toJSON parse s \<Longrightarrow> reachable toJSON parse (initCanvas s)"
  | reach_dispose: "reachable toJSON parse s \<Longrightarrow> reachable toJSON parse (dispose s)"
  | reach_addObject: "reachable toJSON parse s \<Longrightarrow> reachable toJSON parse (addObject obj s)"
  | reach_saveHistory: "reachable toJSON parse s \<Longrightarrow> reachable toJSON parse (saveHistory toJSON s)"
  | reach_resetHistory: "reachable toJSON parse s \<Longrightarrow> reachable toJSON parse (resetHistory s)"
  | reach_undo: "reachable toJSON parse s \<Longrightarrow> reachable toJSON parse (undo parse s)"
  | reach_redo: "reachable toJSON parse s \<Longrightarrow> reachable toJSON parse (redo parse s)"

text \<open>
  A session to evaluate the operations on: a canvas is set up with its baseline entry
  (\<open>initCanvas\<close>, \<open>resetHistory\<close>, \<open>saveHistory\<close>, as \<open>renderSelectionCanvas\<close> does), one
  rectangle is drawn and saved. A snapshot is the list of object values itself here.
\<close>

definition exampleRect :: FabricObject where
  "exampleRect =
     \<lparr>isControlPoint = False, visible = True,
      shapeData = Some (RectData \<lparr>type = Rect, x1 = 10, y1 = 10, x2 = 50, y2 = 40\<rparr>)\<rparr>"

definition exampleSession :: "(FabricObject list) FabricState" where
  "exampleSession =
     saveHistory (\<lambda>objs. objs)
       (addObject exampleRect
          (saveHistory (\<lambda>objs. objs) (resetHistory (initCanvas initialState))))"




text \<open>The same session with the rectangle selected: one control circle on the canvas.\<close>

definition exampleControl :: FabricObject where
  "exampleControl = \<lparr>isControlPoint = True, visible = True, shapeData = None\<rparr>"

definition exampleSelected :: "(FabricObject list) FabricState" where
  "exampleSelected =
     (addObject exampleControl exampleSession)
       \<lparr>controlPoints_shape := Some 0, controlPoints_points := [1]\<rparr>"

text \<open>
  An encoder to evaluate the export with: it prints whether it was called with png,
  quality 1 and multiplier 1, and one letter per painted object, \<open>c\<close> for a control
  point and \<open>s\<close> for a shape.
\<close>

definition exampleEncode :: "ImageFormat \<Rightarrow> real \<Rightarrow> real \<Rightarrow> FabricObject list \<Rightarrow> string" where
  "exampleEncode f q m objs =
     (if f = Png \<and> q = 1 \<and> m = 1 then ''png,1,1:'' else ''other:'') @
     map (\<lambda>obj. if isControlPoint obj then CHR ''c'' else CHR ''s'') objs"

section \<open>Region selection (the two capture components)\<close>

text \<open>
  A selection box and the capture bounds are the source's \<open>{x, y, w, h}\<close>. The two
  capture components (the one drawing on a plain canvas, the one using Fabric) have the
  same selection state and, word for word, the same selecting, dragging and resizing
  branches in \<open>handleMouseMove\<close>; they differ in \<open>handleMouseUp\<close>.
\<close>

record Box =
  box_x :: real
  box_y :: real
  box_w :: real
  box_h :: real

text \<open>The eight handles \<open>getResizeHandle\<close> returns: "nw", "ne", "sw", "se", "n", "s", "w", "e".\<close>

datatype ResizeHandle = H_nw | H_ne | H_sw | H_se | H_n | H_s | H_w | H_e

record SelectionState =
  isSelecting :: bool
  isDragging :: bool
  isResizing :: bool
  resizeHandle :: "ResizeHandle option"
  selection :: "Box option"
  startPos :: Point2D
  dragStartPos :: Point2D
  dragStartSelection :: "Box option"

text \<open>The \<open>switch (resizeHandle.value)\<close> of the resizing branch.\<close>

definition resizeByHandle :: "ResizeHandle \<Rightarrow> Box \<Rightarrow> real \<Rightarrow> real \<Rightarrow> Box" where
  "resizeByHandle handle b dx dy =
     (let sx = box_x b; sy = box_y b; sw = box_w b; sh = box_h b
      in case handle of
           H_nw \<Rightarrow> \<lparr>box_x = sx + dx, box_y = sy + dy, box_w = sw - dx, box_h = sh - dy\<rparr>
         | H_ne \<Rightarrow> \<lparr>box_x = sx, box_y = sy + dy, box_w = sw + dx, box_h = sh - dy\<rparr>
         | H_sw \<Rightarrow> \<lparr>box_x = sx + dx, box_y = sy, box_w = sw - dx, box_h = sh + dy\<rparr>
         | H_se \<Rightarrow> \<lparr>box_x = sx, box_y = sy, box_w = sw + dx, box_h = sh + dy\<rparr>
         | H_n \<Rightarrow> \<lparr>box_x = sx, box_y = sy + dy, box_w = sw, box_h = sh - dy\<rparr>
         | H_s \<Rightarrow> \<lparr>box_x = sx, box_y = sy, box_w = sw, box_h = sh + dy\<rparr>
         | H_w \<Rightarrow> \<lparr>box_x = sx + dx, box_y = sy, box_w = sw - dx, box_h = sh\<rparr>
         | H_e \<Rightarrow> \<lparr>box_x = sx, box_y = sy, box_w = sw + dx, box_h = sh\<rparr>)"

text \<open>The two \<open>if (newW < 0)\<close>, \<open>if (newH < 0)\<close> blocks: a negative extent is flipped.\<close>

definition flipNegative :: "Box \<Rightarrow> Box" where
  "flipNegative b =
     (let b1 = (if box_w b < 0 then b\<lparr>box_x := box_x b + box_w b, box_w := - box_w b\<rparr> else b)
      in if box_h b1 < 0 then b1\<lparr>box_y := box_y b1 + box_h b1, box_h := - box_h b1\<rparr> else b1)"

text \<open>The four clamping assignments, in the source's order.\<close>

definition clampToBounds :: "Box \<Rightarrow> Box \<Rightarrow> Box" where
  "clampToBounds bounds b =
     (let newX = max 0 (box_x b);
          newY = max 0 (box_y b);
          newW = min (box_w bounds - newX) (box_w b);
          newH = min (box_h bounds - newY) (box_h b)
      in \<lparr>box_x = newX, box_y = newY, box_w = newW, box_h = newH\<rparr>)"

text \<open>
  The selection part of \<open>handleMouseMove\<close>; \<open>pos\<close> is the pointer in canvas coordinates
  and \<open>hasObjects\<close> is \<open>shapes.value.length > 0\<close>, respectively \<open>hasFabricObjects()\<close>.
  With none of the three flags set the selection is left alone.
\<close>

definition handleMouseMove :: "Box \<Rightarrow> bool \<Rightarrow> Point2D \<Rightarrow> SelectionState \<Rightarrow> SelectionState" where
  "handleMouseMove bounds hasObjects pos s =
     (if isSelecting s then
        s\<lparr>selection := Some \<lparr>box_x = min (px (startPos s)) (px pos),
                               box_y = min (py (startPos s)) (py pos),
                               box_w = \<bar>px pos - px (startPos s)\<bar>,
                               box_h = \<bar>py pos - py (startPos s)\<bar>\<rparr>\<rparr>
      else
        (case (isDragging s, dragStartSelection s) of
           (True, Some d) \<Rightarrow>
             (if hasObjects then s
              else
                (let dx = px pos - px (dragStartPos s);
                     dy = py pos - py (dragStartPos s);
                     newX = max 0 (min (box_w bounds - box_w d) (box_x d + dx));
                     newY = max 0 (min (box_h bounds - box_h d) (box_y d + dy))
                 in s\<lparr>selection := Some \<lparr>box_x = newX, box_y = newY,
                                           box_w = box_w d, box_h = box_h d\<rparr>\<rparr>))
         | _ \<Rightarrow>
             (case (isResizing s, dragStartSelection s, resizeHandle s) of
                (True, Some d, Some handle) \<Rightarrow>
                  (if hasObjects then s
                   else
                     (let dx = px pos - px (dragStartPos s);
                          dy = py pos - py (dragStartPos s)
                      in s\<lparr>selection :=
                             Some (clampToBounds bounds
                                    (flipNegative (resizeByHandle handle d dx dy)))\<rparr>))
              | _ \<Rightarrow> s)))"

text \<open>
  The selection part of \<open>handleMouseUp\<close> in the plain-canvas component: a selection
  drag that ends below 10 pixels in either extent clears the selection.
\<close>

definition handleMouseUp_canvas :: "SelectionState \<Rightarrow> SelectionState" where
  "handleMouseUp_canvas s =
     (let s1 = (if isSelecting s then
                  (let s' = s\<lparr>isSelecting := False\<rparr>
                   in case selection s' of
                        Some b \<Rightarrow> if box_w b < 10 \<or> box_h b < 10
                                  then s'\<lparr>selection := None\<rparr> else s'
                      | None \<Rightarrow> s')
                else s)
      in s1\<lparr>isDragging := False, isResizing := False, resizeHandle := None,
            dragStartSelection := None\<rparr>)"

text \<open>In the Fabric component the same drag selects the full bounds.\<close>

definition handleMouseUp_fabric :: "Box \<Rightarrow> SelectionState \<Rightarrow> SelectionState" where
  "handleMouseUp_fabric bounds s =
     (let s1 = (if isSelecting s then
                  (let s' = s\<lparr>isSelecting := False\<rparr>
                   in case selection s' of
                        Some b \<Rightarrow> if box_w b < 10 \<or> box_h b < 10
                                  then s'\<lparr>selection := Some \<lparr>box_x = 0, box_y = 0,
                                          box_w = box_w bounds, box_h = box_h bounds\<rparr>\<rparr>
                                  else s'
                      | None \<Rightarrow> s')
                else s)
      in s1\<lparr>isDragging := False, isResizing := False, resizeHandle := None,
            dragStartSelection := None\<rparr>)"

text \<open>A box lies within \<open>[0, bounds.w] \<times> [0, bounds.h]\<close>, with extents that are not negative.\<close>

definition withinBounds :: "Box \<Rightarrow> Box \<Rightarrow> bool" where
  "withinBounds bounds b =
     (0 \<le> box_x b \<and> 0 \<le> box_y b \<and> 0 \<le> box_w b \<and> 0 \<le> box_h b \<and>
      box_x b + box_w b \<le> box_w bounds \<and> box_y b + box_h b \<le> box_h bounds)"

text \<open>A resize gesture in progress: the handle \<open>h\<close> of the box \<open>b\<close> was grabbed at \<open>g\<close>.\<close>

definition resizingState :: "ResizeHandle \<Rightarrow> Box \<Rightarrow> Point2D \<Rightarrow> SelectionState" where
  "resizingState h b g =
     \<lparr>isSelecting = False, isDragging = False, isResizing = True, resizeHandle = Some h,
      selection = Some b, startPos = \<lparr>px = 0, py = 0\<rparr>, dragStartPos = g,
      dragStartSelection = Some b\<rparr>"

text \<open>A selection drag in progress, from \<open>p\<close>, with the box \<open>b\<close> so far.\<close>

definition selectingState :: "Point2D \<Rightarrow> Box \<Rightarrow> SelectionState" where
  "selectingState p b =
     \<lparr>isSelecting = True, isDragging = False, isResizing = False, resizeHandle = None,
      selection = Some b, startPos = p, dragStartPos = \<lparr>px = 0, py = 0\<rparr>,
      dragStartSelection = None\<rparr>"

section \<open>Search highlighting (components/HighlightText.vue)\<close>

record Part =
  part_text :: string
  highlight :: bool

text \<open>
  \<open>query.replace(/[.*+?^${}()|[\]\\]/g, "\\$&")\<close>: every special character gets a
  backslash in front (character 0x5C).
\<close>

definition escapeRegExp :: "string \<Rightarrow> string" where
  "escapeRegExp q =
     concat (map (\<lambda>ch. if ch \<in> set (''.*+?^${}()|[]'' @ [CHR 0x5C])
                         then [CHR 0x5C, ch] else [ch]) q)"

text \<open>
  The computed \<open>parts\<close>. \<open>newRegExp pattern flags\<close> stands for the constructor
  \<open>new RegExp(pattern, flags)\<close>, which throws on an invalid pattern (\<open>Inl\<close>), and
  \<open>split text regex\<close> for \<open>text.split(regex)\<close>, whose result holds \<open>undefined\<close>
  (\<open>None\<close>) for a capturing group that took no part in a match. Reading \<open>part.length\<close>
  of \<open>undefined\<close> throws inside the \<open>try\<close>, so it ends in the \<open>catch\<close> branch as well.
\<close>

definition parts ::
  "(string \<Rightarrow> string \<Rightarrow> 'e + 'r) \<Rightarrow> (string \<Rightarrow> 'r \<Rightarrow> string option list) \<Rightarrow>
   string \<Rightarrow> string \<Rightarrow> bool \<Rightarrow> bool \<Rightarrow> Part list" where
  "parts newRegExp split txt query isRegex isCaseSensitive =
     (if query = [] then [\<lparr>part_text = txt, highlight = False\<rparr>]
      else
        (let flags = (if isCaseSensitive then ''g'' else ''gi'');
             pattern = (if isRegex then ''('' @ query @ '')''
                        else ''('' @ escapeRegExp query @ '')'')
         in case newRegExp pattern flags of
              Inl err \<Rightarrow> [\<lparr>part_text = txt, highlight = False\<rparr>]
            | Inr regex \<Rightarrow>
                (let pieces = split txt regex
                 in case those pieces of
                      None \<Rightarrow> [\<lparr>part_text = txt, highlight = False\<rparr>]
                    | Some ts \<Rightarrow>
                        filter (\<lambda>p. 0 < length (part_text p))
                          (map (\<lambda>(part, index).
                                  \<lparr>part_text = part,
                                   highlight = (index mod 2 = 1 \<and> 0 < length part)\<rparr>)
                             (zip ts [0 ..< length ts])))))"

section \<open>Creation and rejection of shapes\<close>

lemma rect_rejects_iff:
  "RectHandler_createData s c = None \<longleftrightarrow> extent_x s c < 2 \<or> extent_y s c < 2"
  by (simp add: RectHandler_createData_def extent_x_def extent_y_def Let_def)

lemma ellipse_rejects_iff:
  "EllipseHandler_createData s c = None \<longleftrightarrow> extent_x s c < 4 \<or> extent_y s c < 4"
  by (simp add: EllipseHandler_createData_def extent_x_def extent_y_def Let_def)

lemma arrow_rejects_iff:
  "ArrowHandler_createData s c = None \<longleftrightarrow> extent_x s c < 5 \<and> extent_y s c < 5"
  by (simp add: ArrowHandler_createData_def extent_x_def extent_y_def Let_def)

lemma pen_rejects_iff:
  "PenHandler_createData s c pts = None \<longleftrightarrow> (\<exists>ps. pts = Some ps \<and> length ps < 2)"
  by (cases pts) (simp_all add: PenHandler_createData_def Let_def)

text \<open>
  C1, as the code has it. The dispatched \<open>createData\<close> rejects (returns \<open>None\<close>, the
  source's \<open>null\<close>) exactly when: for a rectangle, either extent is below 2; for an
  ellipse, either radius is below 2, that is either extent is below 4; for an arrow, both
  extents are below 5; for a pen stroke, an array of accumulated points is passed and
  holds fewer than 2 points (with no array the stroke is the two gesture points and is
  kept). Text is never rejected and yields the placeholder at the start point with empty
  content and font size 20.
\<close>

theorem createData_rejects_iff:
  "(createData Rect s c pts = None \<longleftrightarrow> extent_x s c < 2 \<or> extent_y s c < 2) \<and>
   (createData Ellipse s c pts = None \<longleftrightarrow> extent_x s c < 4 \<or> extent_y s c < 4) \<and>
   (createData Arrow s c pts = None \<longleftrightarrow> extent_x s c < 5 \<and> extent_y s c < 5) \<and>
   (createData Pen s c pts = None \<longleftrightarrow> (\<exists>ps. pts = Some ps \<and> length ps < 2)) \<and>
   createData Text s c pts =
     Some (TextData \<lparr>type = Text, tx = px s, ty = py s, content = [], fontSize = 20\<rparr>)"
  by (simp add: createData_def rect_rejects_iff ellipse_rejects_iff arrow_rejects_iff
      pen_rejects_iff TextHandler_createData_def)

text \<open>
  The claim's rules for ellipses and pen strokes fail. A drag from (0, 0) to (3, 3) has
  both extents 3, not below 2, and the ellipse is rejected; a pen gesture with no
  accumulated points passed is not rejected.
\<close>

theorem createData_ellipse_pen_counterexample:
  "\<not> (createData Ellipse \<lparr>px = 0, py = 0\<rparr> \<lparr>px = 3, py = 3\<rparr> None = None \<longleftrightarrow>
        extent_x \<lparr>px = 0, py = 0\<rparr> \<lparr>px = 3, py = 3\<rparr> < 2 \<or>
        extent_y \<lparr>px = 0, py = 0\<rparr> \<lparr>px = 3, py = 3\<rparr> < 2) \<and>
   createData Pen \<lparr>px = 0, py = 0\<rparr> \<lparr>px = 3, py = 3\<rparr> None \<noteq> None"
  by (simp add: createData_def EllipseHandler_createData_def PenHandler_createData_def
      extent_x_def extent_y_def)

section \<open>Arrow geometry and translation\<close>

lemma round_even_error: "\<bar>of_int (round_even q) - q\<bar> \<le> 1 / 2"
proof -
  have "of_int \<lfloor>q\<rfloor> \<le> q" "q < of_int \<lfloor>q\<rfloor> + 1" by linarith+
  then show ?thesis
    by (auto simp add: round_even_def Let_def)
qed

lemma pow2_floor_log_le:
  assumes "r \<noteq> 0"
  shows "2 powi \<lfloor>log 2 \<bar>r\<bar>\<rfloor> \<le> \<bar>r\<bar>"
proof -
  have pos: "0 < \<bar>r\<bar>" using assms by simp
  have "\<lfloor>log 2 \<bar>r\<bar>\<rfloor> = \<lfloor>log 2 \<bar>r\<bar>\<rfloor>" by simp
  then have "2 powr (of_int \<lfloor>log 2 \<bar>r\<bar>\<rfloor>) \<le> \<bar>r\<bar>"
    using floor_log_eq_powr_iff [OF pos, of 2 "\<lfloor>log 2 \<bar>r\<bar>\<rfloor>"] by simp
  then show ?thesis by (simp add: powr_real_of_int')
qed

text \<open>
  The rounding error of one addition is at most half a unit in the last place; for a
  sum below 2 to the p that is 2 to the p - 54.
\<close>

lemma round_double_half_ulp:
  assumes "r \<noteq> 0"
  shows "\<bar>round_double r - r\<bar> \<le> 2 powi (double_exponent r - 53)"
proof -
  define u :: real where "u = 2 powi (double_exponent r - 52)"
  have u_pos: "0 < u" by (simp add: u_def)
  have rd: "round_double r = of_int (round_even (r / u)) * u"
    using assms by (simp add: round_double_def Let_def u_def)
  have "\<bar>round_double r - r\<bar> = \<bar>of_int (round_even (r / u)) - r / u\<bar> * u"
  proof -
    have "round_double r - r = (of_int (round_even (r / u)) - r / u) * u"
      using u_pos by (simp add: rd field_simps)
    then show ?thesis using u_pos by (simp add: abs_mult)
  qed
  also have "\<dots> \<le> 1 / 2 * u"
    using round_even_error [of "r / u"] u_pos by (intro mult_right_mono) simp_all
  also have "\<dots> = 2 powi (double_exponent r - 53)"
    by (simp add: u_def power_int_diff)
  finally show ?thesis .
qed

lemma round_double_error_below:
  assumes "\<bar>r\<bar> < 2 powi p" and "- 1021 \<le> p"
  shows "\<bar>round_double r - r\<bar> \<le> 2 powi (p - 54)"
proof (cases "r = 0")
  case True
  then show ?thesis by (simp add: round_double_def)
next
  case False
  have "\<lfloor>log 2 \<bar>r\<bar>\<rfloor> < p"
  proof (rule ccontr)
    assume "\<not> \<lfloor>log 2 \<bar>r\<bar>\<rfloor> < p"
    then have "(2::real) powi p \<le> 2 powi \<lfloor>log 2 \<bar>r\<bar>\<rfloor>"
      by (intro power_int_increasing) simp_all
    with pow2_floor_log_le [OF False] assms(1) show False by linarith
  qed
  then have "double_exponent r - 53 \<le> p - 54"
    using assms(2) by (simp add: double_exponent_def)
  then have "(2::real) powi (double_exponent r - 53) \<le> 2 powi (p - 54)"
    by (intro power_int_increasing) simp_all
  with round_double_half_ulp [OF False] show ?thesis by linarith
qed

lemma round_double_small:
  assumes "\<bar>r\<bar> < 16777216"
  shows "\<bar>round_double r\<bar> < 2 ^ 1024"
proof -
  have "\<bar>r\<bar> < 2 powi 24" using assms by simp
  then have "\<bar>round_double r - r\<bar> \<le> 2 powi (24 - 54)"
    by (intro round_double_error_below) simp_all
  then have "\<bar>round_double r - r\<bar> \<le> 1"
    by (simp add: power_int_minus field_simps)
  then have "\<bar>round_double r\<bar> \<le> 16777217" using assms by linarith
  moreover have "(16777217::real) < 2 ^ 1024" by simp
  ultimately show ?thesis by linarith
qed

lemma js_add_small:
  assumes "\<bar>a + b\<bar> < 16777216"
  shows "js_add a b = Some (round_double (a + b))"
  using round_double_small [OF assms] by (simp add: js_add_def Let_def)

text \<open>Adding \<open>t\<close> and then \<open>- t\<close>, with the two roundings.\<close>

lemma round_trip_error:
  assumes "roundTripRange c t"
  shows "\<bar>round_double (round_double (c + t) + - t) - c\<bar> \<le> 1 / 10 ^ 9"
    and "\<bar>round_double (c + t) + - t\<bar> < 16777216"
    and "\<bar>c + t\<bar> < 16777216"
proof -
  define s where "s = round_double (c + t)"
  consider (a) "\<bar>c\<bar> \<le> 8388607" "\<bar>c + t\<bar> < 8388608"
    | (b) "\<bar>c\<bar> \<le> 1048575" "\<bar>c + t\<bar> < 16777216"
    using assms by (auto simp add: roundTripRange_def)
  then have "\<bar>round_double (s + - t) - c\<bar> \<le> 1 / 10 ^ 9 \<and> \<bar>s + - t\<bar> < 16777216"
  proof cases
    case a
    have "\<bar>c + t\<bar> < 2 powi 23" using a(2) by simp
    then have "\<bar>s - (c + t)\<bar> \<le> 2 powi (23 - 54)"
      unfolding s_def by (intro round_double_error_below) simp_all
    then have e1: "\<bar>s - (c + t)\<bar> \<le> 1 / 2 ^ 31" by (simp add: power_int_minus field_simps)
    have st: "\<bar>s + - t\<bar> \<le> \<bar>c\<bar> + 1 / 2 ^ 31" using e1 by linarith
    then have "\<bar>s + - t\<bar> < 2 powi 23" using a(1) by simp
    then have "\<bar>round_double (s + - t) - (s + - t)\<bar> \<le> 2 powi (23 - 54)"
      by (intro round_double_error_below) simp_all
    then have e2: "\<bar>round_double (s + - t) - (s + - t)\<bar> \<le> 1 / 2 ^ 31"
      by (simp add: power_int_minus field_simps)
    have "(1::real) / 2 ^ 31 + 1 / 2 ^ 31 \<le> 1 / 10 ^ 9" by simp
    then have "\<bar>round_double (s + - t) - c\<bar> \<le> 1 / 10 ^ 9" using e1 e2 by linarith
    moreover have "\<bar>s + - t\<bar> < 16777216" using st a(1) by simp
    ultimately show ?thesis by simp
  next
    case b
    have "\<bar>c + t\<bar> < 2 powi 24" using b(2) by simp
    then have "\<bar>s - (c + t)\<bar> \<le> 2 powi (24 - 54)"
      unfolding s_def by (intro round_double_error_below) simp_all
    then have e1: "\<bar>s - (c + t)\<bar> \<le> 1 / 2 ^ 30" by (simp add: power_int_minus field_simps)
    have st: "\<bar>s + - t\<bar> \<le> \<bar>c\<bar> + 1 / 2 ^ 30" using e1 by linarith
    then have "\<bar>s + - t\<bar> < 2 powi 20" using b(1) by simp
    then have "\<bar>round_double (s + - t) - (s + - t)\<bar> \<le> 2 powi (20 - 54)"
      by (intro round_double_error_below) simp_all
    then have e2: "\<bar>round_double (s + - t) - (s + - t)\<bar> \<le> 1 / 2 ^ 34"
      by (simp add: power_int_minus field_simps)
    have "(1::real) / 2 ^ 30 + 1 / 2 ^ 34 \<le> 1 / 10 ^ 9" by simp
    then have "\<bar>round_double (s + - t) - c\<bar> \<le> 1 / 10 ^ 9" using e1 e2 by linarith
    moreover have "\<bar>s + - t\<bar> < 16777216" using st b(1) by simp
    ultimately show ?thesis by simp
  qed
  then show "\<bar>round_double (round_double (c + t) + - t) - c\<bar> \<le> 1 / 10 ^ 9"
    and "\<bar>round_double (c + t) + - t\<bar> < 16777216"
    unfolding s_def by simp_all
  show "\<bar>c + t\<bar> < 16777216"
    using assms by (auto simp add: roundTripRange_def)
qed

text \<open>Evaluating \<open>round_double\<close> on a number whose binade is known.\<close>

lemma double_exponent_eq:
  assumes "2 powi e \<le> \<bar>r\<bar>" "\<bar>r\<bar> < 2 powi (e + 1)" "- 1022 \<le> e"
  shows "double_exponent r = e"
proof -
  have "0 < (2::real) powi e" by simp
  then have pos: "0 < \<bar>r\<bar>" using assms(1) by linarith
  have lo: "2 powr (of_int e) \<le> \<bar>r\<bar>"
    using assms(1) by (simp add: powr_real_of_int')
  have "2 powr (of_int e + 1) = (2::real) powi (e + 1)"
    using powr_real_of_int' [of 2 "e + 1"] by simp
  then have hi: "\<bar>r\<bar> < 2 powr (of_int e + 1)"
    using assms(2) by simp
  have "\<lfloor>log 2 \<bar>r\<bar>\<rfloor> = e"
    using floor_log_eq_powr_iff [OF pos, of 2 e] lo hi by simp
  then show ?thesis using assms(3) by (simp add: double_exponent_def)
qed

lemma round_double_eval:
  assumes "2 powi e \<le> \<bar>r\<bar>" "\<bar>r\<bar> < 2 powi (e + 1)" "- 1022 \<le> e"
  shows "round_double r = of_int (round_even (r / 2 powi (e - 52))) * 2 powi (e - 52)"
proof -
  have "0 < (2::real) powi e" by simp
  then have "0 < \<bar>r\<bar>" using assms(1) by linarith
  then have "r \<noteq> 0" by simp
  then show ?thesis
    by (simp add: round_double_def Let_def double_exponent_eq [OF assms])
qed

text \<open>
  The double nearest to 0.1 is 3602879701896397 / 2 ^ 55. Adding 100000000 to it and
  rounding gives 100000000.09999999403953552 (the binade is 2 ^ 26, the unit in the
  last place 2 ^ -26); taking 100000000 away again is exact.
\<close>

lemma round_double_tenth_plus:
  "round_double (3602879701896397 / 36028797018963968 + 100000000) =
     6710886406710886 / 67108864"
proof -
  have "round_double (3602879701896397 / 36028797018963968 + 100000000) =
      of_int (round_even ((3602879701896397 / 36028797018963968 + 100000000) /
                 2 powi (26 - 52))) * 2 powi (26 - 52)"
    by (rule round_double_eval) simp_all
  also have "\<dots> = 6710886406710886 / 67108864"
    by (simp add: round_even_def Let_def power_int_minus)
  finally show ?thesis .
qed

lemma round_double_tenth_back:
  "round_double (6710886406710886 / 67108864 + - 100000000) = 3355443 / 33554432"
proof -
  have "round_double (6710886406710886 / 67108864 + - 100000000) =
      of_int (round_even ((6710886406710886 / 67108864 + - 100000000) /
                 2 powi (- 4 - 52))) * 2 powi (- 4 - 52)"
    by (rule round_double_eval) (simp_all add: power_int_minus)
  also have "\<dots> = 3355443 / 33554432"
    by (simp add: round_even_def Let_def power_int_minus)
  finally show ?thesis .
qed

lemma round_double_hundred_million: "round_double 100000000 = 100000000"
proof -
  have "round_double 100000000 =
      of_int (round_even (100000000 / 2 powi (26 - 52))) * 2 powi (26 - 52)"
    by (rule round_double_eval) simp_all
  also have "\<dots> = 100000000"
    by (simp add: round_even_def Let_def power_int_minus)
  finally show ?thesis .
qed

text \<open>
  C7, as the code has it. Let each endpoint coordinate c of an arrow and its
  displacement t (dx for x1 and x2, dy for y1 and y2) be in \<open>roundTripRange\<close>: c and
  c + t below 2 ^ 23 in magnitude, or c below 2 ^ 20 and c + t below 2 ^ 24; all
  coordinates and displacements below 2 ^ 22 = 4194304 in magnitude are. Then \<open>move\<close> by
  (dx, dy) and \<open>move\<close> of the result by (-dx, -dy) both give finite coordinates, and
  the four coordinates that come back differ from the original ones by at most 1e-9.
  One move replaces each coordinate by the rounded sum and keeps the tag and every
  other property of the data.
\<close>

theorem ArrowHandler_move_round_trip:
  assumes "roundTripRange (x1 d) dx" and "roundTripRange (y1 d) dy"
    and "roundTripRange (x2 d) dx" and "roundTripRange (y2 d) dy"
  shows "\<exists>d' d''. ArrowHandler_move d dx dy = Some d' \<and>
           ArrowHandler_move d' (- dx) (- dy) = Some d'' \<and>
           \<bar>x1 d'' - x1 d\<bar> \<le> 1 / 10 ^ 9 \<and> \<bar>y1 d'' - y1 d\<bar> \<le> 1 / 10 ^ 9 \<and>
           \<bar>x2 d'' - x2 d\<bar> \<le> 1 / 10 ^ 9 \<and> \<bar>y2 d'' - y2 d\<bar> \<le> 1 / 10 ^ 9 \<and>
           x1 d' = round_double (x1 d + dx) \<and> y1 d' = round_double (y1 d + dy) \<and>
           x2 d' = round_double (x2 d + dx) \<and> y2 d' = round_double (y2 d + dy) \<and>
           type d' = type d \<and> TwoPointShapeData.more d' = TwoPointShapeData.more d \<and>
           type d'' = type d \<and> TwoPointShapeData.more d'' = TwoPointShapeData.more d"
proof -
  let ?d' = "d\<lparr>x1 := round_double (x1 d + dx), y1 := round_double (y1 d + dy),
               x2 := round_double (x2 d + dx), y2 := round_double (y2 d + dy)\<rparr>"
  let ?d'' = "?d'\<lparr>x1 := round_double (round_double (x1 d + dx) + - dx),
                 y1 := round_double (round_double (y1 d + dy) + - dy),
                 x2 := round_double (round_double (x2 d + dx) + - dx),
                 y2 := round_double (round_double (y2 d + dy) + - dy)\<rparr>"
  have fwd: "js_add (x1 d) dx = Some (round_double (x1 d + dx))"
    "js_add (y1 d) dy = Some (round_double (y1 d + dy))"
    "js_add (x2 d) dx = Some (round_double (x2 d + dx))"
    "js_add (y2 d) dy = Some (round_double (y2 d + dy))"
    using round_trip_error(3) [OF assms(1)] round_trip_error(3) [OF assms(2)]
      round_trip_error(3) [OF assms(3)] round_trip_error(3) [OF assms(4)]
    by (simp_all add: js_add_small)
  have bwd: "js_add (round_double (x1 d + dx)) (- dx) =
      Some (round_double (round_double (x1 d + dx) + - dx))"
    "js_add (round_double (y1 d + dy)) (- dy) =
      Some (round_double (round_double (y1 d + dy) + - dy))"
    "js_add (round_double (x2 d + dx)) (- dx) =
      Some (round_double (round_double (x2 d + dx) + - dx))"
    "js_add (round_double (y2 d + dy)) (- dy) =
      Some (round_double (round_double (y2 d + dy) + - dy))"
    using round_trip_error(2) [OF assms(1)] round_trip_error(2) [OF assms(2)]
      round_trip_error(2) [OF assms(3)] round_trip_error(2) [OF assms(4)]
    by (simp_all add: js_add_small)
  have m1: "ArrowHandler_move d dx dy = Some ?d'"
    by (simp add: ArrowHandler_move_def fwd)
  have m2: "ArrowHandler_move ?d' (- dx) (- dy) = Some ?d''"
    by (simp add: ArrowHandler_move_def bwd)
  show ?thesis
    using m1 m2 round_trip_error(1) [OF assms(1)] round_trip_error(1) [OF assms(2)]
      round_trip_error(1) [OF assms(3)] round_trip_error(1) [OF assms(4)]
    by (intro exI [of _ ?d'] exI [of _ ?d'']) simp
qed

theorem ArrowHandler_move_round_trip_witness:
  "roundTripRange (x1 \<lparr>type = Arrow, x1 = 10, y1 = 10, x2 = 50, y2 = 40\<rparr>) (1 / 3) \<and>
   roundTripRange (y1 \<lparr>type = Arrow, x1 = 10, y1 = 10, x2 = 50, y2 = 40\<rparr>) (- 7) \<and>
   roundTripRange (x2 \<lparr>type = Arrow, x1 = 10, y1 = 10, x2 = 50, y2 = 40\<rparr>) (1 / 3) \<and>
   roundTripRange (y2 \<lparr>type = Arrow, x1 = 10, y1 = 10, x2 = 50, y2 = 40\<rparr>) (- 7) \<and>
   (\<exists>d' d''. ArrowHandler_move \<lparr>type = Arrow, x1 = 10, y1 = 10, x2 = 50, y2 = 40\<rparr>
                 (1 / 3) (- 7) = Some d' \<and>
        ArrowHandler_move d' (- (1 / 3)) (- (- 7)) = Some d'' \<and>
        \<bar>x1 d'' - 10\<bar> \<le> 1 / 10 ^ 9 \<and> \<bar>y1 d'' - 10\<bar> \<le> 1 / 10 ^ 9 \<and>
        \<bar>x2 d'' - 50\<bar> \<le> 1 / 10 ^ 9 \<and> \<bar>y2 d'' - 40\<bar> \<le> 1 / 10 ^ 9 \<and>
        type d'' = Arrow)"
proof -
  let ?d = "\<lparr>type = Arrow, x1 = 10, y1 = 10, x2 = 50, y2 = 40\<rparr>"
  have h: "roundTripRange (x1 ?d) (1 / 3)" "roundTripRange (y1 ?d) (- 7)"
    "roundTripRange (x2 ?d) (1 / 3)" "roundTripRange (y2 ?d) (- 7)"
    by (simp_all add: roundTripRange_def)
  from ArrowHandler_move_round_trip [OF h] obtain d' d'' where r:
    "ArrowHandler_move ?d (1 / 3) (- 7) = Some d'"
    "ArrowHandler_move d' (- (1 / 3)) (- (- 7)) = Some d''"
    "\<bar>x1 d'' - x1 ?d\<bar> \<le> 1 / 10 ^ 9" "\<bar>y1 d'' - y1 ?d\<bar> \<le> 1 / 10 ^ 9"
    "\<bar>x2 d'' - x2 ?d\<bar> \<le> 1 / 10 ^ 9" "\<bar>y2 d'' - y2 ?d\<bar> \<le> 1 / 10 ^ 9"
    "type d'' = type ?d"
    by blast
  have "\<exists>d' d''. ArrowHandler_move ?d (1 / 3) (- 7) = Some d' \<and>
        ArrowHandler_move d' (- (1 / 3)) (- (- 7)) = Some d'' \<and>
        \<bar>x1 d'' - 10\<bar> \<le> 1 / 10 ^ 9 \<and> \<bar>y1 d'' - 10\<bar> \<le> 1 / 10 ^ 9 \<and>
        \<bar>x2 d'' - 50\<bar> \<le> 1 / 10 ^ 9 \<and> \<bar>y2 d'' - 40\<bar> \<le> 1 / 10 ^ 9 \<and>
        type d'' = Arrow"
    using r by (intro exI [of _ d'] exI [of _ d'']) simp
  with h show ?thesis by blast
qed

text \<open>
  The claim fails for large displacements. An arrow with x1 = 0.1 (the double nearest
  to it) moved by dx = 100000000 and back has x1 = 0.09999999403953552: off by more
  than 5e-9.
\<close>

theorem ArrowHandler_move_counterexample:
  "ArrowHandler_move
     \<lparr>type = Arrow, x1 = 3602879701896397 / 36028797018963968, y1 = 0, x2 = 0, y2 = 0\<rparr>
     100000000 0 =
     Some \<lparr>type = Arrow, x1 = 6710886406710886 / 67108864, y1 = 0, x2 = 100000000, y2 = 0\<rparr> \<and>
   ArrowHandler_move
     \<lparr>type = Arrow, x1 = 6710886406710886 / 67108864, y1 = 0, x2 = 100000000, y2 = 0\<rparr>
     (- 100000000) (- 0) =
     Some \<lparr>type = Arrow, x1 = 3355443 / 33554432, y1 = 0, x2 = 0, y2 = 0\<rparr> \<and>
   \<not> \<bar>x1 \<lparr>type = Arrow, x1 = 3355443 / 33554432, y1 = 0, x2 = 0, y2 = 0\<rparr> -
        3602879701896397 / 36028797018963968\<bar> \<le> 1 / 10 ^ 9"
proof -
  have z: "round_double 0 = 0" by (simp add: round_double_def)
  have big: "\<bar>6710886406710886 / 67108864\<bar> < (2::real) ^ 1024"
    "\<bar>100000000\<bar> < (2::real) ^ 1024" "\<bar>3355443 / 33554432\<bar> < (2::real) ^ 1024"
    "\<bar>0\<bar> < (2::real) ^ 1024"
    by simp_all
  have a: "js_add (3602879701896397 / 36028797018963968) 100000000 =
      Some (6710886406710886 / 67108864)"
    unfolding js_add_def Let_def round_double_tenth_plus using big(1) by (rule if_P)
  have s0: "(0::real) + 100000000 = 100000000" "(100000000::real) + - 100000000 = 0"
    "(0::real) + 0 = 0" "(0::real) + - 0 = 0"
    by simp_all
  have b: "js_add 0 100000000 = Some 100000000"
    unfolding js_add_def Let_def s0 round_double_hundred_million using big(2) by (rule if_P)
  have c: "js_add (6710886406710886 / 67108864) (- 100000000) = Some (3355443 / 33554432)"
    unfolding js_add_def Let_def round_double_tenth_back using big(3) by (rule if_P)
  have e: "js_add 100000000 (- 100000000) = Some 0" "js_add 0 0 = Some 0"
    "js_add 0 (- 0) = Some 0"
    unfolding js_add_def Let_def s0 z using big(4) by (rule if_P)+
  have m1: "ArrowHandler_move
     \<lparr>type = Arrow, x1 = 3602879701896397 / 36028797018963968, y1 = 0, x2 = 0, y2 = 0\<rparr>
     100000000 0 =
     Some \<lparr>type = Arrow, x1 = 6710886406710886 / 67108864, y1 = 0, x2 = 100000000, y2 = 0\<rparr>"
    unfolding ArrowHandler_move_def
    by (simp only: TwoPointShapeData.simps a b e prod.case option.case)
  have m2: "ArrowHandler_move
     \<lparr>type = Arrow, x1 = 6710886406710886 / 67108864, y1 = 0, x2 = 100000000, y2 = 0\<rparr>
     (- 100000000) (- 0) =
     Some \<lparr>type = Arrow, x1 = 3355443 / 33554432, y1 = 0, x2 = 0, y2 = 0\<rparr>"
    unfolding ArrowHandler_move_def
    by (simp only: TwoPointShapeData.simps c e prod.case option.case)
  have off: "\<not> \<bar>x1 \<lparr>type = Arrow, x1 = 3355443 / 33554432, y1 = 0, x2 = 0, y2 = 0\<rparr> -
        3602879701896397 / 36028797018963968\<bar> \<le> 1 / 10 ^ 9"
    by simp
  from m1 m2 off show ?thesis by (intro conjI)
qed

lemma sqrt_polar: "sqrt ((r * cos t)\<^sup>2 + (r * sin t)\<^sup>2) = \<bar>r\<bar>"
proof -
  have "(r * cos t)\<^sup>2 + (r * sin t)\<^sup>2 = r\<^sup>2 * ((cos t)\<^sup>2 + (sin t)\<^sup>2)"
    by (simp only: power_mult_distrib distrib_left)
  also have "\<dots> = r\<^sup>2"
    by (simp only: sin_cos_squared_add2 mult_1_right)
  finally show ?thesis by simp
qed

lemma distance_polar: "distance a b (a + r * cos t) (b + r * sin t) = \<bar>r\<bar>"
  using sqrt_polar [of r t] by (simp add: distance_def)

lemma distance_polar_minus: "distance a b (a - r * cos t) (b - r * sin t) = \<bar>r\<bar>"
  using sqrt_polar [of "- r" t] by (simp add: distance_def)

lemma distance_sym: "distance a b c d = distance c d a b"
  by (simp add: distance_def power2_commute)

lemma sqrt_one_plus_quotient:
  assumes "a \<noteq> 0"
  shows "sqrt (1 + (b / a)\<^sup>2) = sqrt (a\<^sup>2 + b\<^sup>2) / \<bar>a\<bar>"
proof -
  have "1 + (b / a)\<^sup>2 = (a\<^sup>2 + b\<^sup>2) / a\<^sup>2"
    using assms by (simp add: power_divide field_simps)
  then show ?thesis by (simp add: real_sqrt_divide)
qed

lemma hypotenuse_pos: "a \<noteq> 0 \<Longrightarrow> 0 < sqrt (a\<^sup>2 + b\<^sup>2)"
  by (simp add: sum_power2_gt_zero_iff)

lemma cos_arctan_quotient:
  assumes "a \<noteq> 0"
  shows "cos (arctan (b / a)) * sqrt (a\<^sup>2 + b\<^sup>2) = \<bar>a\<bar>"
  using assms hypotenuse_pos [OF assms, of b]
  by (simp add: cos_arctan sqrt_one_plus_quotient)

lemma sin_arctan_quotient:
  assumes "a \<noteq> 0"
  shows "sin (arctan (b / a)) * sqrt (a\<^sup>2 + b\<^sup>2) = b / a * \<bar>a\<bar>"
  using assms hypotenuse_pos [OF assms, of b]
  by (simp add: sin_arctan sqrt_one_plus_quotient)

text \<open>The angle \<open>Math_atan2\<close> returns is the direction of the vector (a, b).\<close>

lemma cos_atan2: "cos (Math_atan2 b a) * sqrt (a\<^sup>2 + b\<^sup>2) = a"
proof -
  consider "0 < a" | "a < 0" | "a = 0" by linarith
  then show ?thesis
  proof cases
    case 1
    then show ?thesis
      using cos_arctan_quotient [of a b] by (simp add: Math_atan2_def)
  next
    case 2
    then show ?thesis
      using cos_arctan_quotient [of a b] by (simp add: Math_atan2_def)
  next
    case 3
    then show ?thesis by (simp add: Math_atan2_def)
  qed
qed

lemma sin_atan2: "sin (Math_atan2 b a) * sqrt (a\<^sup>2 + b\<^sup>2) = b"
proof -
  consider "0 < a" | "a < 0" | "a = 0" by linarith
  then show ?thesis
  proof cases
    case 1
    then show ?thesis
      using sin_arctan_quotient [of a b] by (simp add: Math_atan2_def)
  next
    case 2
    then show ?thesis
      using sin_arctan_quotient [of a b] by (simp add: Math_atan2_def)
  next
    case 3
    then show ?thesis by (simp add: Math_atan2_def)
  qed
qed

text \<open>
  C6. For all endpoints (a1, b1), (a2, b2) and every stroke width w, the path is one
  closed polygon of seven vertices: \<open>M\<close>, six \<open>L\<close>, then \<open>Z\<close>. With
  scale = max(0.5, w / 3), len the length of the segment and
  headLength = min(30 scale, 0.4 len), and with n the midpoint of the two neck corners:
  the fourth vertex is the tip (a2, b2); n lies on the segment, headLength from the tip,
  and headLength is at most 40 percent of len; the neck corners are 2 scale and the
  head's outer corners 10 scale from n (ratio 5 to 1), on the line through n across the
  segment; the tail corners are 2 scale from the tail (a1, b1), on either side of it.
  The vertices on one side come first (tail, neck, head corner), then the tip, then the
  other side in reverse (head corner, neck, tail). Without a width the width is 3.
\<close>

theorem buildArrowPathData_polygon:
  "\<exists>t1x t1y n1x n1y h1x h1y h2x h2y n2x n2y t2x t2y.
     buildArrowPathData a1 b1 a2 b2 (Some w) =
       [MoveTo t1x t1y, LineTo n1x n1y, LineTo h1x h1y, LineTo a2 b2,
        LineTo h2x h2y, LineTo n2x n2y, LineTo t2x t2y, ClosePath] \<and>
     buildArrowPathData a1 b1 a2 b2 None = buildArrowPathData a1 b1 a2 b2 (Some 3) \<and>
     (let scale = max (1 / 2) (w / 3);
          len = distance a1 b1 a2 b2;
          headLength = min (30 * scale) (len * 0.4);
          nx = (n1x + n2x) / 2; ny = (n1y + n2y) / 2
      in distance nx ny a2 b2 = headLength \<and> headLength \<le> 0.4 * len \<and>
         (a2 - nx) * len = headLength * (a2 - a1) \<and>
         (b2 - ny) * len = headLength * (b2 - b1) \<and>
         distance nx ny h1x h1y = 10 * scale \<and> distance nx ny h2x h2y = 10 * scale \<and>
         distance nx ny n1x n1y = 2 * scale \<and> distance nx ny n2x n2y = 2 * scale \<and>
         distance a1 b1 t1x t1y = 2 * scale \<and> distance a1 b1 t2x t2y = 2 * scale \<and>
         (t1x - a1) * len = - (2 * scale) * (b2 - b1) \<and>
         (t1y - b1) * len = 2 * scale * (a2 - a1) \<and>
         (t1x + t2x) / 2 = a1 \<and> (t1y + t2y) / 2 = b1 \<and>
         n1x - nx = t1x - a1 \<and> n1y - ny = t1y - b1 \<and>
         n2x - nx = t2x - a1 \<and> n2y - ny = t2y - b1 \<and>
         h1x - nx = 5 * (n1x - nx) \<and> h1y - ny = 5 * (n1y - ny) \<and>
         h2x - nx = 5 * (n2x - nx) \<and> h2y - ny = 5 * (n2y - ny))"
proof -
  define scale where "scale = max (1 / 2) (w / 3)"
  define len where "len = distance a1 b1 a2 b2"
  define hl where "hl = min (30 * scale) (len * 0.4)"
  define ang where "ang = Math_atan2 (b2 - b1) (a2 - a1)"
  define nx where "nx = a2 - hl * cos ang"
  define ny where "ny = b2 - hl * sin ang"
  define c where "c = cos (ang + pi / 2)"
  define s where "s = sin (ang + pi / 2)"
  have scale_pos: "0 < scale" by (simp add: scale_def max_def)
  have len_nn: "0 \<le> len" by (simp add: len_def distance_def)
  have hl_nn: "0 \<le> hl" using scale_pos len_nn by (simp add: hl_def min_def)
  have path: "buildArrowPathData a1 b1 a2 b2 (Some w) =
       [MoveTo (a1 + 2 * scale * c) (b1 + 2 * scale * s),
        LineTo (nx + 2 * scale * c) (ny + 2 * scale * s),
        LineTo (nx + 10 * scale * c) (ny + 10 * scale * s),
        LineTo a2 b2,
        LineTo (nx - 10 * scale * c) (ny - 10 * scale * s),
        LineTo (nx - 2 * scale * c) (ny - 2 * scale * s),
        LineTo (a1 - 2 * scale * c) (b1 - 2 * scale * s), ClosePath]"
    by (simp add: buildArrowPathData_def Let_def scale_def len_def hl_def ang_def nx_def
        ny_def c_def s_def distance_def)
  have dflt: "buildArrowPathData a1 b1 a2 b2 None = buildArrowPathData a1 b1 a2 b2 (Some 3)"
    by (simp only: buildArrowPathData_def option.case)
  have mid: "((nx + 2 * scale * c) + (nx - 2 * scale * c)) / 2 = nx"
    "((ny + 2 * scale * s) + (ny - 2 * scale * s)) / 2 = ny" by simp_all
  have d_tip: "distance nx ny a2 b2 = hl"
    using distance_polar_minus [of a2 b2 hl ang] hl_nn
    by (simp add: nx_def ny_def distance_sym [of _ _ a2 b2])
  have d_perp: "\<And>r. 0 \<le> r \<Longrightarrow> distance nx ny (nx + r * c) (ny + r * s) = r"
    "\<And>r. 0 \<le> r \<Longrightarrow> distance nx ny (nx - r * c) (ny - r * s) = r"
    "\<And>r. 0 \<le> r \<Longrightarrow> distance a1 b1 (a1 + r * c) (b1 + r * s) = r"
    "\<And>r. 0 \<le> r \<Longrightarrow> distance a1 b1 (a1 - r * c) (b1 - r * s) = r"
    using distance_polar distance_polar_minus by (simp_all add: c_def s_def)
  have hl_le: "hl \<le> 0.4 * len" by (simp add: hl_def)
  have dir: "cos ang * len = a2 - a1" "sin ang * len = b2 - b1"
    using cos_atan2 [of "b2 - b1" "a2 - a1"] sin_atan2 [of "b2 - b1" "a2 - a1"]
    by (simp_all add: ang_def len_def distance_def)
  have on_axis: "(a2 - nx) * len = hl * (a2 - a1)" "(b2 - ny) * len = hl * (b2 - b1)"
    using dir by (simp_all add: nx_def ny_def mult.assoc)
  have cs: "c = - sin ang" "s = cos ang"
    by (simp_all add: c_def s_def cos_add sin_add)
  have across: "(a1 + 2 * scale * c - a1) * len = - (2 * scale) * (b2 - b1)"
    "(b1 + 2 * scale * s - b1) * len = 2 * scale * (a2 - a1)"
    using dir by (simp_all add: cs mult.assoc)
  show ?thesis
    apply (rule exI [of _ "a1 + 2 * scale * c"], rule exI [of _ "b1 + 2 * scale * s"])
    apply (rule exI [of _ "nx + 2 * scale * c"], rule exI [of _ "ny + 2 * scale * s"])
    apply (rule exI [of _ "nx + 10 * scale * c"], rule exI [of _ "ny + 10 * scale * s"])
    apply (rule exI [of _ "nx - 10 * scale * c"], rule exI [of _ "ny - 10 * scale * s"])
    apply (rule exI [of _ "nx - 2 * scale * c"], rule exI [of _ "ny - 2 * scale * s"])
    apply (rule exI [of _ "a1 - 2 * scale * c"], rule exI [of _ "b1 - 2 * scale * s"])
    apply (rule conjI, rule path)
    apply (rule conjI, rule dflt)
    unfolding Let_def mid scale_def [symmetric] len_def [symmetric] hl_def [symmetric]
    using d_tip hl_le on_axis across d_perp [of "2 * scale"] d_perp [of "10 * scale"] scale_pos
    by (simp add: mult.assoc)
qed

section \<open>The history log\<close>

lemma Array_slice_prefix:
  "- 1 \<le> i \<Longrightarrow> Array_slice xs 0 (i + 1) = take (nat (i + 1)) xs"
  by (auto simp add: Array_slice_def Let_def min_def)

lemma saveHistory_result:
  assumes "fabricCanvas s = Some canvas" and "- 1 \<le> historyIndex s"
  shows "history (saveHistory toJSON s) =
           take (nat (historyIndex s + 1)) (history s) @
             [\<lparr>json = toJSON (persistentObjects s canvas)\<rparr>]"
    and "historyIndex (saveHistory toJSON s) = int (length (history (saveHistory toJSON s))) - 1"
  using assms
  by (auto simp add: saveHistory_def Let_def Array_slice_prefix persistentObjects_def)

lemma saveHistory_frame:
  "fabricCanvas (saveHistory toJSON s) = fabricCanvas s"
  "heap (saveHistory toJSON s) = heap s"
  "controlPoints_points (saveHistory toJSON s) = controlPoints_points s"
  by (simp_all add: saveHistory_def Let_def split: option.splits)

lemma saveHistory_no_canvas: "fabricCanvas s = None \<Longrightarrow> saveHistory toJSON s = s"
  by (simp add: saveHistory_def)

lemma saveHistory_cursor_last:
  "fabricCanvas s \<noteq> None \<Longrightarrow>
   historyIndex (saveHistory toJSON s) = int (length (history (saveHistory toJSON s))) - 1"
  by (auto simp add: saveHistory_def Let_def)

lemma loadFromJSON_objects:
  "fabricCanvas s = Some c \<Longrightarrow>
   \<exists>c'. fabricCanvas (loadFromJSON parse j s) = Some c' \<and>
        map (heap (loadFromJSON parse j s)) (objects c') = parse j"
  by (auto simp add: loadFromJSON_def Let_def intro!: nth_equalityI)

lemma loadFromJSON_frame:
  "history (loadFromJSON parse j s) = history s"
  "historyIndex (loadFromJSON parse j s) = historyIndex s"
  "isLoadingHistory (loadFromJSON parse j s) = isLoadingHistory s"
  "controlPoints_points (loadFromJSON parse j s) = controlPoints_points s"
  "(fabricCanvas (loadFromJSON parse j s) = None) = (fabricCanvas s = None)"
  by (simp_all add: loadFromJSON_def Let_def)

lemma undo_step:
  assumes "fabricCanvas s = Some c" "0 < historyIndex s"
    "historyIndex s \<le> int (length (history s)) - 1"
  shows "historyIndex (undo parse s) = historyIndex s - 1"
    "history (undo parse s) = history s"
    "fabricCanvas (undo parse s) \<noteq> None"
    "isLoadingHistory (undo parse s) = False"
    "\<exists>c'. fabricCanvas (undo parse s) = Some c' \<and>
       map (heap (undo parse s)) (objects c') =
         parse (json (history s ! nat (historyIndex s - 1)))"
  using assms
    loadFromJSON_objects [of "s\<lparr>isLoadingHistory := True, historyIndex := historyIndex s - 1\<rparr>" c parse]
  by (simp_all add: undo_def Let_def loadFromJSON_frame)

lemma redo_step:
  assumes "fabricCanvas s = Some c" "- 1 \<le> historyIndex s"
    "historyIndex s < int (length (history s)) - 1"
  shows "historyIndex (redo parse s) = historyIndex s + 1"
    "history (redo parse s) = history s"
    "fabricCanvas (redo parse s) \<noteq> None"
    "isLoadingHistory (redo parse s) = False"
    "\<exists>c'. fabricCanvas (redo parse s) = Some c' \<and>
       map (heap (redo parse s)) (objects c') =
         parse (json (history s ! nat (historyIndex s + 1)))"
  using assms
    loadFromJSON_objects [of "s\<lparr>isLoadingHistory := True, historyIndex := historyIndex s + 1\<rparr>" c parse]
  by (simp_all add: redo_def Let_def loadFromJSON_frame)

lemma undo_noop: "historyIndex s \<le> 0 \<Longrightarrow> undo parse s = s"
  by (simp add: undo_def)

lemma redo_noop: "int (length (history s)) - 1 \<le> historyIndex s \<Longrightarrow> redo parse s = s"
  by (simp add: redo_def)

text \<open>\<open>canUndo\<close> and \<open>canRedo\<close> are the negations of the two guards.\<close>

lemma not_canUndo: "\<not> canUndo s \<Longrightarrow> undo parse s = s"
  by (simp add: canUndo_def undo_noop)

lemma not_canRedo: "\<not> canRedo s \<Longrightarrow> redo parse s = s"
  by (simp add: canRedo_def redo_noop)

lemma undo_in_range:
  assumes ok: "cursor_in_range s"
  shows "cursor_in_range (undo parse s) \<and> history (undo parse s) = history s"
proof (cases "fabricCanvas s = None \<or> historyIndex s \<le> 0")
  case True
  with ok show ?thesis by (auto simp add: undo_def)
next
  case False
  then obtain c where c: "fabricCanvas s = Some c" by auto
  from False have pos: "0 < historyIndex s" by simp
  from ok have le: "historyIndex s \<le> int (length (history s)) - 1"
    by (simp add: cursor_in_range_def)
  show ?thesis
    using undo_step(1,2) [OF c pos le, of parse] pos le
    by (simp add: cursor_in_range_def)
qed

lemma redo_in_range:
  assumes ok: "cursor_in_range s"
  shows "cursor_in_range (redo parse s) \<and> history (redo parse s) = history s"
proof (cases "fabricCanvas s = None \<or> int (length (history s)) - 1 \<le> historyIndex s")
  case True
  with ok show ?thesis by (auto simp add: redo_def)
next
  case False
  then obtain c where c: "fabricCanvas s = Some c" by auto
  from False have lt: "historyIndex s < int (length (history s)) - 1" by simp
  from ok have ge: "- 1 \<le> historyIndex s"
    by (simp add: cursor_in_range_def)
  show ?thesis
    using redo_step(1,2) [OF c ge lt, of parse] ok lt
    by (simp add: cursor_in_range_def)
qed

lemma saveHistory_in_range:
  assumes ok: "cursor_in_range s"
  shows "cursor_in_range (saveHistory toJSON s) \<and>
         hd (history (saveHistory toJSON s)) = hd (history s)"
proof (cases "fabricCanvas s")
  case None
  with ok show ?thesis by (simp add: saveHistory_no_canvas)
next
  case (Some c)
  from ok have ge: "- 1 \<le> historyIndex s" and ge0: "0 \<le> historyIndex s"
    and ne: "history s \<noteq> []"
    by (auto simp add: cursor_in_range_def)
  have tk: "take (nat (historyIndex s + 1)) (history s) \<noteq> []"
    using ge0 ne by simp
  show ?thesis
    using saveHistory_result [OF Some ge, of toJSON] tk ne
    by (simp add: cursor_in_range_def hd_append hd_take)
qed

lemma saveHistory_after_reset:
  "fabricCanvas s \<noteq> None \<Longrightarrow> cursor_in_range (saveHistory toJSON (resetHistory s)) \<and>
     length (history (saveHistory toJSON (resetHistory s))) = 1"
  by (auto simp add: saveHistory_def resetHistory_def cursor_in_range_def Let_def)

text \<open>
  What holds in every reachable state: the cursor is -1 on an empty log and points at
  an entry otherwise, and a log with entries belongs to a canvas.
\<close>

lemma reachable_invariant:
  assumes "reachable toJSON parse s"
  shows "- 1 \<le> historyIndex s \<and> historyIndex s \<le> int (length (history s)) - 1 \<and>
         (history s \<noteq> [] \<longrightarrow> fabricCanvas s \<noteq> None \<and> 0 \<le> historyIndex s)"
  using assms
proof (induction rule: reachable.induct)
  case reach_start
  show ?case by (simp add: initialState_def)
next
  case (reach_initCanvas s)
  then show ?case by (simp add: initCanvas_def)
next
  case (reach_dispose s)
  show ?case by (simp add: dispose_def resetHistory_def)
next
  case (reach_addObject s obj)
  then show ?case by (auto simp add: addObject_def split: option.splits)
next
  case (reach_saveHistory s)
  show ?case
  proof (cases "fabricCanvas s")
    case None
    with reach_saveHistory.IH show ?thesis by (auto simp add: saveHistory_no_canvas)
  next
    case (Some c)
    from reach_saveHistory.IH have ge: "- 1 \<le> historyIndex s" by simp
    show ?thesis
      using saveHistory_result [OF Some ge, of toJSON] Some
      by (simp add: saveHistory_frame)
  qed
next
  case (reach_resetHistory s)
  show ?case by (simp add: resetHistory_def)
next
  case (reach_undo s)
  show ?case
  proof (cases "fabricCanvas s = None \<or> historyIndex s \<le> 0")
    case True
    with reach_undo.IH show ?thesis by (auto simp add: undo_def)
  next
    case False
    then obtain c where c: "fabricCanvas s = Some c" by auto
    from False have pos: "0 < historyIndex s" by simp
    from reach_undo.IH have le: "historyIndex s \<le> int (length (history s)) - 1" by simp
    show ?thesis
      using undo_step(1,2,3) [OF c pos le, of parse] pos le by simp
  qed
next
  case (reach_redo s)
  show ?case
  proof (cases "fabricCanvas s = None \<or> int (length (history s)) - 1 \<le> historyIndex s")
    case True
    with reach_redo.IH show ?thesis by (auto simp add: redo_def)
  next
    case False
    then obtain c where c: "fabricCanvas s = Some c" by auto
    from False have lt: "historyIndex s < int (length (history s)) - 1" by simp
    from reach_redo.IH have ge: "- 1 \<le> historyIndex s" by simp
    show ?thesis
      using redo_step(1,2,3) [OF c ge lt, of parse] ge lt by simp
  qed
qed

text \<open>
  Right after \<open>saveHistory\<close> the entry at the cursor is the snapshot of the canvas as
  it is, so it deserialises to the canvas's objects when \<open>parse\<close> inverts \<open>toJSON\<close>.
\<close>

lemma saveHistory_in_sync:
  assumes "fabricCanvas s = Some canvas" and "- 1 \<le> historyIndex s"
    and "parse (toJSON (persistentObjects s canvas)) = persistentObjects s canvas"
  shows "parse (json (history (saveHistory toJSON s) !
                        nat (historyIndex (saveHistory toJSON s)))) =
         persistentObjects (saveHistory toJSON s) canvas"
proof -
  have "history (saveHistory toJSON s) ! nat (historyIndex (saveHistory toJSON s)) =
      \<lparr>json = toJSON (persistentObjects s canvas)\<rparr>"
    using saveHistory_result [OF assms(1,2), of toJSON]
    by (simp add: nth_append)
  then show ?thesis
    using assms(3) by (simp add: persistentObjects_def saveHistory_frame)
qed

text \<open>The example session, evaluated.\<close>

lemma exampleSession_eval:
  "fabricCanvas exampleSession = Some \<lparr>objects = [0]\<rparr>"
  "historyIndex exampleSession = 1"
  "history exampleSession = [\<lparr>json = []\<rparr>, \<lparr>json = [exampleRect]\<rparr>]"
  "heap exampleSession 0 = exampleRect"
  "controlPoints_points exampleSession = []"
  "nextRef exampleSession = 1"
  by (simp_all add: exampleSession_def saveHistory_def addObject_def resetHistory_def
      initCanvas_def initialState_def persistentObjects_def Array_slice_def Let_def
      exampleRect_def)

lemma exampleSession_reachable:
  "reachable (\<lambda>objs. objs) (\<lambda>j. j) exampleSession"
  unfolding exampleSession_def
  by (intro reachable.intros)

lemma exampleSession_undone:
  "fabricCanvas (undo (\<lambda>j. j) exampleSession) = Some \<lparr>objects = []\<rparr>"
  "historyIndex (undo (\<lambda>j. j) exampleSession) = 0"
  "history (undo (\<lambda>j. j) exampleSession) = [\<lparr>json = []\<rparr>, \<lparr>json = [exampleRect]\<rparr>]"
  by (simp_all add: undo_def loadFromJSON_def Let_def exampleSession_eval)

text \<open>
  C3. A call of \<open>saveHistory\<close> on a canvas, with the cursor at -1 or above as it is in
  every reachable state, leaves the entries up to the cursor, discards the ones after
  it, appends exactly one new entry (the snapshot of the canvas's objects without the
  control points) and puts the cursor on it: afterwards \<open>historyIndex\<close> is the length
  of the log minus one.
\<close>

theorem saveHistory_appends_one:
  assumes "fabricCanvas s = Some canvas" and "- 1 \<le> historyIndex s"
  shows "history (saveHistory toJSON s) =
           take (nat (historyIndex s + 1)) (history s) @
             [\<lparr>json = toJSON (persistentObjects s canvas)\<rparr>] \<and>
         length (history (saveHistory toJSON s)) =
           min (length (history s)) (nat (historyIndex s + 1)) + 1 \<and>
         historyIndex (saveHistory toJSON s) = int (length (history (saveHistory toJSON s))) - 1"
  using saveHistory_result [OF assms, of toJSON] by simp

theorem saveHistory_appends_one_witness:
  "fabricCanvas (undo (\<lambda>j. j) exampleSession) = Some \<lparr>objects = []\<rparr> \<and>
   - 1 \<le> historyIndex (undo (\<lambda>j. j) exampleSession) \<and>
   length (history (undo (\<lambda>j. j) exampleSession)) = 2 \<and>
   history (saveHistory (\<lambda>objs. objs) (undo (\<lambda>j. j) exampleSession)) =
     [\<lparr>json = []\<rparr>, \<lparr>json = []\<rparr>] \<and>
   historyIndex (saveHistory (\<lambda>objs. objs) (undo (\<lambda>j. j) exampleSession)) = 1"
proof -
  have c: "fabricCanvas (undo (\<lambda>j. j) exampleSession) = Some \<lparr>objects = []\<rparr>"
    by (simp add: exampleSession_undone)
  have i: "- 1 \<le> historyIndex (undo (\<lambda>j. j) exampleSession)"
    by (simp add: exampleSession_undone)
  show ?thesis
    using saveHistory_appends_one [OF c i, of "\<lambda>objs. objs"]
    by (simp add: exampleSession_undone persistentObjects_def)
qed







text \<open>
  C10. The first \<open>saveHistory\<close> after \<open>resetHistory\<close> on a canvas puts the cursor in
  range, 0 \<open>\<le>\<close> historyIndex \<open>\<le>\<close> length - 1. From then on \<open>undo\<close>, \<open>redo\<close> and
  \<open>saveHistory\<close> keep it in range; \<open>undo\<close> and \<open>redo\<close> leave the log as it is and
  \<open>saveHistory\<close> keeps its first entry, the baseline. \<open>undo\<close> changes nothing when
  historyIndex \<open>\<le>\<close> 0, \<open>redo\<close> changes nothing when historyIndex \<open>\<ge>\<close> length - 1, and
  \<open>saveHistory\<close> on a canvas leaves the cursor on the last entry.
\<close>

theorem history_cursor_invariant:
  "(fabricCanvas s \<noteq> None \<longrightarrow> cursor_in_range (saveHistory toJSON (resetHistory s))) \<and>
   (cursor_in_range s \<longrightarrow>
      cursor_in_range (undo parse s) \<and> cursor_in_range (redo parse s) \<and>
      cursor_in_range (saveHistory toJSON s) \<and>
      history (undo parse s) = history s \<and> history (redo parse s) = history s \<and>
      hd (history (saveHistory toJSON s)) = hd (history s)) \<and>
   (historyIndex s \<le> 0 \<longrightarrow> undo parse s = s) \<and>
   (int (length (history s)) - 1 \<le> historyIndex s \<longrightarrow> redo parse s = s) \<and>
   (fabricCanvas s \<noteq> None \<longrightarrow>
      historyIndex (saveHistory toJSON s) = int (length (history (saveHistory toJSON s))) - 1)"
  using saveHistory_after_reset [of s toJSON] undo_in_range [of s parse]
    redo_in_range [of s parse] saveHistory_in_range [of s toJSON]
    undo_noop [of s parse] redo_noop [of s parse] saveHistory_cursor_last [of s toJSON]
  by blast

theorem history_cursor_invariant_witness:
  "fabricCanvas exampleSession \<noteq> None \<and> cursor_in_range exampleSession \<and>
   int (length (history exampleSession)) - 1 \<le> historyIndex exampleSession \<and>
   cursor_in_range (saveHistory (\<lambda>objs. objs) (resetHistory exampleSession)) \<and>
   cursor_in_range (undo (\<lambda>j. j) exampleSession) \<and>
   cursor_in_range (redo (\<lambda>j. j) exampleSession) \<and>
   cursor_in_range (saveHistory (\<lambda>objs. objs) exampleSession) \<and>
   history (undo (\<lambda>j. j) exampleSession) = history exampleSession \<and>
   hd (history (saveHistory (\<lambda>objs. objs) exampleSession)) = \<lparr>json = []\<rparr> \<and>
   redo (\<lambda>j. j) exampleSession = exampleSession \<and>
   historyIndex (saveHistory (\<lambda>objs. objs) exampleSession) =
     int (length (history (saveHistory (\<lambda>objs. objs) exampleSession))) - 1"
proof -
  have c: "fabricCanvas exampleSession \<noteq> None"
    by (simp add: exampleSession_eval)
  have r: "cursor_in_range exampleSession"
    by (simp add: cursor_in_range_def exampleSession_eval)
  have e: "int (length (history exampleSession)) - 1 \<le> historyIndex exampleSession"
    by (simp add: exampleSession_eval)
  have h: "hd (history exampleSession) = \<lparr>json = []\<rparr>"
    by (simp add: exampleSession_eval)
  show ?thesis
    using c r e h
      history_cursor_invariant [of exampleSession "\<lambda>objs. objs" "\<lambda>j. j"]
    by simp
qed

section \<open>Export\<close>

lemma setVisible_apply:
  "setVisible v cs h r = (if r \<in> set cs then (h r)\<lparr>visible := v\<rparr> else h r)"
  unfolding setVisible_def
  by (induction cs arbitrary: h) auto

lemma setVisible_twice:
  "setVisible True cs (setVisible False cs h) =
     (\<lambda>r. if r \<in> set cs then (h r)\<lparr>visible := True\<rparr> else h r)"
  by (rule ext) (simp add: setVisible_apply)

lemma hidden_visible_filter:
  "filter visible (map (setVisible False cs h) rs) =
     map h (filter (\<lambda>r. r \<notin> set cs \<and> visible (h r)) rs)"
  by (induction rs) (auto simp add: setVisible_apply)

lemma toDataURL_url:
  assumes "fabricCanvas s = Some canvas"
  shows "fst (toDataURL encode fmt q s) =
           encode (case fmt of None \<Rightarrow> Png | Some f \<Rightarrow> f) (case q of None \<Rightarrow> 1 | Some v \<Rightarrow> v) 1
             (map (heap s)
                (filter (\<lambda>r. r \<notin> set (controlPoints_points s) \<and> visible (heap s r))
                   (objects canvas)))"
  using assms by (simp add: toDataURL_def Let_def hidden_visible_filter)

lemma toDataURL_state:
  assumes "fabricCanvas s = Some canvas"
  shows "snd (toDataURL encode fmt q s) =
           s\<lparr>heap := (\<lambda>r. if r \<in> set (controlPoints_points s)
                            then (heap s r)\<lparr>visible := True\<rparr> else heap s r)\<rparr>"
  using assms by (simp add: toDataURL_def Let_def setVisible_twice)

lemma toDataURL_no_canvas: "fabricCanvas s = None \<Longrightarrow> toDataURL encode fmt q s = ([], s)"
  by (simp add: toDataURL_def)

text \<open>
  C8. On a canvas, \<open>toDataURL\<close> returns what Fabric encodes with multiplier 1, format
  and quality as passed (default png and 1), from exactly the visible canvas objects
  that are not control points of \<open>controlPoints.value.points\<close>, with the values they had
  before the call. Afterwards every one of these control points has \<open>visible\<close> set and
  is otherwise as before, every other object is as before, and the control-point list,
  the canvas's object list and the history are as before; with the control points
  visible before the call, as they are from their creation on, the state after the
  export is the state before it. When every canvas object flagged \<open>isControlPoint\<close> is
  in the list, no control point is painted.
\<close>

theorem toDataURL_hides_control_points:
  assumes "fabricCanvas s = Some canvas"
  shows "fst (toDataURL encode fmt q s) =
           encode (case fmt of None \<Rightarrow> Png | Some f \<Rightarrow> f) (case q of None \<Rightarrow> 1 | Some v \<Rightarrow> v) 1
             (map (heap s)
                (filter (\<lambda>r. r \<notin> set (controlPoints_points s) \<and> visible (heap s r))
                   (objects canvas))) \<and>
         ((\<forall>r \<in> set (objects canvas).
             isControlPoint (heap s r) \<longrightarrow> r \<in> set (controlPoints_points s)) \<longrightarrow>
          (\<forall>obj \<in> set (map (heap s)
                (filter (\<lambda>r. r \<notin> set (controlPoints_points s) \<and> visible (heap s r))
                   (objects canvas))). \<not> isControlPoint obj)) \<and>
         snd (toDataURL encode fmt q s) =
           s\<lparr>heap := (\<lambda>r. if r \<in> set (controlPoints_points s)
                            then (heap s r)\<lparr>visible := True\<rparr> else heap s r)\<rparr> \<and>
         (\<forall>r \<in> set (controlPoints_points s). visible (heap (snd (toDataURL encode fmt q s)) r)) \<and>
         (\<forall>r. r \<notin> set (controlPoints_points s) \<longrightarrow>
              heap (snd (toDataURL encode fmt q s)) r = heap s r) \<and>
         controlPoints_points (snd (toDataURL encode fmt q s)) = controlPoints_points s \<and>
         controlPoints_shape (snd (toDataURL encode fmt q s)) = controlPoints_shape s \<and>
         fabricCanvas (snd (toDataURL encode fmt q s)) = fabricCanvas s \<and>
         history (snd (toDataURL encode fmt q s)) = history s \<and>
         historyIndex (snd (toDataURL encode fmt q s)) = historyIndex s \<and>
         ((\<forall>r \<in> set (controlPoints_points s). visible (heap s r)) \<longrightarrow>
            snd (toDataURL encode fmt q s) = s)"
proof -
  note url = toDataURL_url [OF assms, of encode fmt q]
  note st = toDataURL_state [OF assms, of encode fmt q]
  have shown: "\<forall>r \<in> set (controlPoints_points s). visible (heap (snd (toDataURL encode fmt q s)) r)"
    by (simp add: st)
  have rest: "\<forall>r. r \<notin> set (controlPoints_points s) \<longrightarrow>
      heap (snd (toDataURL encode fmt q s)) r = heap s r"
    by (simp add: st)
  have frame: "controlPoints_points (snd (toDataURL encode fmt q s)) = controlPoints_points s"
    "controlPoints_shape (snd (toDataURL encode fmt q s)) = controlPoints_shape s"
    "fabricCanvas (snd (toDataURL encode fmt q s)) = fabricCanvas s"
    "history (snd (toDataURL encode fmt q s)) = history s"
    "historyIndex (snd (toDataURL encode fmt q s)) = historyIndex s"
    by (simp_all add: st)
  have same: "snd (toDataURL encode fmt q s) = s"
    if "\<forall>r \<in> set (controlPoints_points s). visible (heap s r)"
  proof -
    have "(\<lambda>r. if r \<in> set (controlPoints_points s)
                then (heap s r)\<lparr>visible := True\<rparr> else heap s r) = heap s"
      using that by (intro ext) auto
    then show ?thesis by (simp add: st)
  qed
  have none: "\<forall>obj \<in> set (map (heap s)
                (filter (\<lambda>r. r \<notin> set (controlPoints_points s) \<and> visible (heap s r))
                   (objects canvas))). \<not> isControlPoint obj"
    if "\<forall>r \<in> set (objects canvas).
             isControlPoint (heap s r) \<longrightarrow> r \<in> set (controlPoints_points s)"
    using that by auto
  show ?thesis
    using url none st shown rest frame same by blast
qed

lemma exampleSelected_eval:
  "fabricCanvas exampleSelected = Some \<lparr>objects = [0, 1]\<rparr>"
  "controlPoints_points exampleSelected = [1]"
  "heap exampleSelected 0 = exampleRect"
  "heap exampleSelected 1 = exampleControl"
  "heap exampleSelected (Suc 0) = exampleControl"
  by (simp_all add: exampleSelected_def addObject_def exampleSession_eval)

theorem toDataURL_hides_control_points_witness:
  "fabricCanvas exampleSelected = Some \<lparr>objects = [0, 1]\<rparr> \<and>
   map (heap exampleSelected) [0, 1] = [exampleRect, exampleControl] \<and>
   fst (toDataURL exampleEncode None None exampleSelected) = ''png,1,1:s'' \<and>
   snd (toDataURL exampleEncode None None exampleSelected) = exampleSelected"
proof -
  have c: "fabricCanvas exampleSelected = Some \<lparr>objects = [0, 1]\<rparr>"
    by (simp add: exampleSelected_eval)
  have v: "\<forall>r \<in> set (controlPoints_points exampleSelected). visible (heap exampleSelected r)"
    by (simp add: exampleSelected_eval exampleControl_def)
  note t = toDataURL_hides_control_points [OF c, of exampleEncode None None]
  from t have "fst (toDataURL exampleEncode None None exampleSelected) =
      exampleEncode Png 1 1
        (map (heap exampleSelected)
          (filter (\<lambda>r. r \<notin> set (controlPoints_points exampleSelected) \<and>
                        visible (heap exampleSelected r)) (objects \<lparr>objects = [0, 1]\<rparr>)))"
    by simp
  then have u: "fst (toDataURL exampleEncode None None exampleSelected) = ''png,1,1:s''"
    by (simp add: exampleSelected_eval exampleRect_def exampleControl_def exampleEncode_def)
  from t v have st: "snd (toDataURL exampleEncode None None exampleSelected) = exampleSelected"
    by blast
  have m: "map (heap exampleSelected) [0, 1] = [exampleRect, exampleControl]"
    by (simp add: exampleSelected_eval)
  from c m u st show ?thesis by simp
qed

section \<open>Region selection\<close>

lemma flipNegative_edges:
  "box_w (flipNegative b) = \<bar>box_w b\<bar>"
  "box_h (flipNegative b) = \<bar>box_h b\<bar>"
  "box_x (flipNegative b) = min (box_x b) (box_x b + box_w b)"
  "box_y (flipNegative b) = min (box_y b) (box_y b + box_h b)"
  by (simp_all add: flipNegative_def Let_def min_def)

lemma resizeByHandle_x:
  "box_x b \<le> B \<Longrightarrow> box_x b + box_w b \<le> B \<Longrightarrow>
   box_x (flipNegative (resizeByHandle h b dx dy)) \<le> B"
  by (cases h) (simp_all add: flipNegative_edges resizeByHandle_def Let_def min_le_iff_disj)

lemma resizeByHandle_y:
  "box_y b \<le> B \<Longrightarrow> box_y b + box_h b \<le> B \<Longrightarrow>
   box_y (flipNegative (resizeByHandle h b dx dy)) \<le> B"
  by (cases h) (simp_all add: flipNegative_edges resizeByHandle_def Let_def min_le_iff_disj)

lemma clampToBounds_within:
  assumes "0 \<le> box_w b" "0 \<le> box_h b" "box_x b \<le> box_w bounds" "box_y b \<le> box_h bounds"
    "0 \<le> box_w bounds" "0 \<le> box_h bounds"
  shows "withinBounds bounds (clampToBounds bounds b)"
proof -
  have "max 0 (box_x b) + min (box_w bounds - max 0 (box_x b)) (box_w b) \<le> box_w bounds"
    by linarith
  moreover
  have "max 0 (box_y b) + min (box_h bounds - max 0 (box_y b)) (box_h b) \<le> box_h bounds"
    by linarith
  ultimately show ?thesis
    using assms by (simp add: withinBounds_def clampToBounds_def Let_def)
qed

text \<open>
  When the box the gesture started from has its left and right edge at or below
  \<open>bounds.w\<close> and its top and bottom edge at or below \<open>bounds.h\<close>, the step ends within
  the bounds; the box may begin left of or above them.
\<close>

lemma resize_within:
  assumes "0 \<le> box_w bounds" "0 \<le> box_h bounds"
    and "box_x b \<le> box_w bounds" "box_x b + box_w b \<le> box_w bounds"
    and "box_y b \<le> box_h bounds" "box_y b + box_h b \<le> box_h bounds"
  shows "withinBounds bounds (clampToBounds bounds (flipNegative (resizeByHandle h b dx dy)))"
proof (rule clampToBounds_within)
  show "0 \<le> box_w (flipNegative (resizeByHandle h b dx dy))"
    "0 \<le> box_h (flipNegative (resizeByHandle h b dx dy))"
    by (simp_all add: flipNegative_edges)
  show "box_x (flipNegative (resizeByHandle h b dx dy)) \<le> box_w bounds"
    using assms by (intro resizeByHandle_x) simp_all
  show "box_y (flipNegative (resizeByHandle h b dx dy)) \<le> box_h bounds"
    using assms by (intro resizeByHandle_y) simp_all
  show "0 \<le> box_w bounds" "0 \<le> box_h bounds"
    using assms by simp_all
qed

lemma handleMouseMove_resizing:
  assumes "\<not> isSelecting s" "\<not> isDragging s" "isResizing s"
    "dragStartSelection s = Some b" "resizeHandle s = Some h"
  shows "selection (handleMouseMove bounds False pos s) =
           Some (clampToBounds bounds
                  (flipNegative
                    (resizeByHandle h b (px pos - px (dragStartPos s))
                       (py pos - py (dragStartPos s)))))"
  using assms by (simp add: handleMouseMove_def Let_def)

lemma resize_step_within:
  assumes "\<not> isSelecting s" "\<not> isDragging s" "isResizing s"
    "dragStartSelection s = Some b" "resizeHandle s = Some h"
    and "0 \<le> box_w bounds" "0 \<le> box_h bounds"
    and "box_x b \<le> box_w bounds" "box_x b + box_w b \<le> box_w bounds"
    and "box_y b \<le> box_h bounds" "box_y b + box_h b \<le> box_h bounds"
  shows "\<exists>b'. selection (handleMouseMove bounds False pos s) = Some b' \<and>
              withinBounds bounds b'"
  using handleMouseMove_resizing [OF assms(1-5), of bounds pos] resize_within [OF assms(6-11)]
  by simp

text \<open>The example of the specification: the nw handle dragged to (-500, -500).\<close>

lemma nw_example:
  assumes "\<bar>gx - 100\<bar> < 12" "\<bar>gy - 100\<bar> < 12"
  shows "box_x (clampToBounds bounds (flipNegative (resizeByHandle H_nw
            \<lparr>box_x = 100, box_y = 100, box_w = 50, box_h = 50\<rparr> (- 500 - gx) (- 500 - gy)))) = 0"
    "box_y (clampToBounds bounds (flipNegative (resizeByHandle H_nw
            \<lparr>box_x = 100, box_y = 100, box_w = 50, box_h = 50\<rparr> (- 500 - gx) (- 500 - gy)))) = 0"
  using assms
  by (simp_all add: clampToBounds_def flipNegative_edges resizeByHandle_def Let_def)

lemma nw_example_step:
  "selection (handleMouseMove \<lparr>box_x = 0, box_y = 0, box_w = 1000, box_h = 800\<rparr> False
                \<lparr>px = - 500, py = - 500\<rparr>
                (resizingState H_nw \<lparr>box_x = 100, box_y = 100, box_w = 50, box_h = 50\<rparr>
                   \<lparr>px = 100, py = 100\<rparr>)) =
     Some \<lparr>box_x = 0, box_y = 0, box_w = 650, box_h = 650\<rparr>"
  by (simp add: handleMouseMove_def resizingState_def clampToBounds_def flipNegative_def
      resizeByHandle_def Let_def)

text \<open>
  C4. The claim asks that one resize step of any selection box, by any handle and to
  any pointer position, ends within \<open>[0, bounds.w] \<times> [0, bounds.h]\<close> with width and
  height not negative. The resizing branch flips a negative extent and clamps, but it
  never clamps the left edge from above. With bounds 1000 by 800, the box of x 100,
  y 100, w 4900, h 50 (what a selection drag from (100, 100) to (5000, 150) builds)
  and its w handle dragged from (100, 125) to (2100, 125), the step leaves the
  selection at x = 2100 with w = -1100: outside the bounds, with a negative width.
\<close>

theorem selection_resize_leaves_bounds:
  "selection (handleMouseMove \<lparr>box_x = 0, box_y = 0, box_w = 1000, box_h = 800\<rparr> False
                \<lparr>px = 5000, py = 150\<rparr>
                (selectingState \<lparr>px = 100, py = 100\<rparr>
                   \<lparr>box_x = 100, box_y = 100, box_w = 0, box_h = 0\<rparr>)) =
     Some \<lparr>box_x = 100, box_y = 100, box_w = 4900, box_h = 50\<rparr> \<and>
   selection (handleMouseMove \<lparr>box_x = 0, box_y = 0, box_w = 1000, box_h = 800\<rparr> False
                \<lparr>px = 2100, py = 125\<rparr>
                (resizingState H_w \<lparr>box_x = 100, box_y = 100, box_w = 4900, box_h = 50\<rparr>
                   \<lparr>px = 100, py = 125\<rparr>)) =
     Some \<lparr>box_x = 2100, box_y = 100, box_w = - 1100, box_h = 50\<rparr> \<and>
   \<not> withinBounds \<lparr>box_x = 0, box_y = 0, box_w = 1000, box_h = 800\<rparr>
       \<lparr>box_x = 2100, box_y = 100, box_w = - 1100, box_h = 50\<rparr>"
  by (simp add: handleMouseMove_def resizingState_def selectingState_def clampToBounds_def
      flipNegative_def resizeByHandle_def withinBounds_def Let_def)

text \<open>
  C5. A selection drag released with the box's width below 10 or its height below 10
  leaves no such box behind: the plain-canvas component clears the selection, the
  Fabric component replaces it by the full bounds, and both end the selecting state.
\<close>

theorem small_selection_not_kept:
  assumes "isSelecting s" and "selection s = Some b" and "box_w b < 10 \<or> box_h b < 10"
  shows "selection (handleMouseUp_canvas s) = None \<and>
         selection (handleMouseUp_fabric bounds s) =
           Some \<lparr>box_x = 0, box_y = 0, box_w = box_w bounds, box_h = box_h bounds\<rparr> \<and>
         \<not> isSelecting (handleMouseUp_canvas s) \<and>
         \<not> isSelecting (handleMouseUp_fabric bounds s)"
  using assms by (auto simp add: handleMouseUp_canvas_def handleMouseUp_fabric_def Let_def)

theorem small_selection_not_kept_witness:
  "isSelecting (handleMouseMove \<lparr>box_x = 0, box_y = 0, box_w = 1000, box_h = 800\<rparr> False
       \<lparr>px = 103, py = 300\<rparr>
       (selectingState \<lparr>px = 100, py = 100\<rparr> \<lparr>box_x = 100, box_y = 100, box_w = 0, box_h = 0\<rparr>)) \<and>
   selection (handleMouseMove \<lparr>box_x = 0, box_y = 0, box_w = 1000, box_h = 800\<rparr> False
       \<lparr>px = 103, py = 300\<rparr>
       (selectingState \<lparr>px = 100, py = 100\<rparr> \<lparr>box_x = 100, box_y = 100, box_w = 0, box_h = 0\<rparr>)) =
     Some \<lparr>box_x = 100, box_y = 100, box_w = 3, box_h = 200\<rparr> \<and>
   selection (handleMouseUp_canvas
     (handleMouseMove \<lparr>box_x = 0, box_y = 0, box_w = 1000, box_h = 800\<rparr> False
       \<lparr>px = 103, py = 300\<rparr>
       (selectingState \<lparr>px = 100, py = 100\<rparr> \<lparr>box_x = 100, box_y = 100, box_w = 0, box_h = 0\<rparr>))) =
     None \<and>
   selection (handleMouseUp_fabric \<lparr>box_x = 0, box_y = 0, box_w = 1000, box_h = 800\<rparr>
     (handleMouseMove \<lparr>box_x = 0, box_y = 0, box_w = 1000, box_h = 800\<rparr> False
       \<lparr>px = 103, py = 300\<rparr>
       (selectingState \<lparr>px = 100, py = 100\<rparr> \<lparr>box_x = 100, box_y = 100, box_w = 0, box_h = 0\<rparr>))) =
     Some \<lparr>box_x = 0, box_y = 0, box_w = 1000, box_h = 800\<rparr>"
proof -
  let ?bounds = "\<lparr>box_x = 0, box_y = 0, box_w = 1000, box_h = 800\<rparr>"
  let ?s = "handleMouseMove ?bounds False \<lparr>px = 103, py = 300\<rparr>
       (selectingState \<lparr>px = 100, py = 100\<rparr> \<lparr>box_x = 100, box_y = 100, box_w = 0, box_h = 0\<rparr>)"
  let ?b = "\<lparr>box_x = 100, box_y = 100, box_w = 3, box_h = 200\<rparr>"
  have a: "isSelecting ?s"
    by (simp add: handleMouseMove_def selectingState_def)
  have b: "selection ?s = Some ?b"
    by (simp add: handleMouseMove_def selectingState_def)
  have c: "box_w ?b < 10 \<or> box_h ?b < 10" by simp
  show ?thesis
    using a b small_selection_not_kept [OF a b c, of ?bounds] by simp
qed

section \<open>Search highlighting\<close>

text \<open>
  C9. When the query is empty, and when the constructor of the regular expression
  throws on the pattern built from a non-empty query (in regex mode the query itself in
  parentheses), \<open>parts\<close> is the one part holding the whole text, not highlighted: the
  error does not leave the computation.
\<close>

theorem parts_fallback:
  "(query = [] \<longrightarrow>
      parts newRegExp split txt query isRegex isCaseSensitive =
        [\<lparr>part_text = txt, highlight = False\<rparr>]) \<and>
   (newRegExp (''('' @ (if isRegex then query else escapeRegExp query) @ '')'')
        (if isCaseSensitive then ''g'' else ''gi'') = Inl err \<longrightarrow>
      parts newRegExp split txt query isRegex isCaseSensitive =
        [\<lparr>part_text = txt, highlight = False\<rparr>])"
  by (simp add: parts_def Let_def)

theorem parts_fallback_witness:
  "parts (\<lambda>pattern flags. if pattern = ''([)'' then Inl ''SyntaxError'' else Inr pattern)
         (\<lambda>t regex. [Some t]) ''a[b'' ''['' True False =
     [\<lparr>part_text = ''a[b'', highlight = False\<rparr>] \<and>
   parts (\<lambda>pattern flags. if pattern = ''([)'' then Inl ''SyntaxError'' else Inr pattern)
         (\<lambda>t regex. [Some t]) ''a[b'' [] True False =
     [\<lparr>part_text = ''a[b'', highlight = False\<rparr>]"
  using parts_fallback [of "''[''"
      "\<lambda>pattern flags. if pattern = ''([)'' then Inl ''SyntaxError'' else Inr pattern"
      "\<lambda>t regex. [Some t]" "''a[b''" True False "''SyntaxError''"]
    parts_fallback [of "[]"
      "\<lambda>pattern flags. if pattern = ''([)'' then Inl ''SyntaxError'' else Inr pattern"
      "\<lambda>t regex. [Some t]" "''a[b''" True False "''SyntaxError''"]
  by simp

end
